theory Spec2Isabelle
  imports Main "HOL-Library.Sublist"
begin

section \<open>Python strings\<close>

text \<open>
  A Python \<^verbatim>\<open>str\<close> is modelled as the list of its code points. A code point is a
  \<^typ>\<open>char\<close>, so the model covers the strings whose code points are below 256; every
  literal of the two adapters is ASCII. The whitespace that \<^verbatim>\<open>str.strip()\<close> and
  \<^verbatim>\<open>str.split()\<close> recognise among these code points is TAB, LF, VT, FF, CR, the four
  separators 0x1C..0x1F, the space, NEL (0x85) and the no-break space (0xA0).
\<close>

definition is_space :: "char \<Rightarrow> bool" where
  "is_space c = (c \<in> set [CHR 0x09, CHR 0x0A, CHR 0x0B, CHR 0x0C, CHR 0x0D, CHR 0x1C, CHR 0x1D,
                           CHR 0x1E, CHR 0x1F, CHR 0x20, CHR 0x85, CHR 0xA0])"

definition lstrip :: "string \<Rightarrow> string" where
  "lstrip s = dropWhile is_space s"

definition rstrip :: "string \<Rightarrow> string" where
  "rstrip s = rev (dropWhile is_space (rev s))"

definition strip :: "string \<Rightarrow> string" where
  "strip s = lstrip (rstrip s)"

text \<open>\<^verbatim>\<open>s.rstrip("/")\<close>: the trailing slashes are removed.\<close>

definition rstrip_slash :: "string \<Rightarrow> string" where
  "rstrip_slash s = rev (dropWhile (\<lambda>c. c = CHR ''/'') (rev s))"

text \<open>
  \<^verbatim>\<open>s.split()\<close>: the maximal runs of non-whitespace, in order. The scan keeps the
  word read so far in \<open>cur\<close>.
\<close>

fun split_ws_acc :: "string \<Rightarrow> string \<Rightarrow> string list" where
  "split_ws_acc cur [] = (if cur = [] then [] else [cur])"
| "split_ws_acc cur (c # cs) =
     (if is_space c
      then (if cur = [] then split_ws_acc [] cs else cur # split_ws_acc [] cs)
      else split_ws_acc (cur @ [c]) cs)"

definition split_ws :: "string \<Rightarrow> string list" where
  "split_ws s = split_ws_acc [] s"

text \<open>\<^verbatim>\<open>s.split(",")\<close>: the segments between the separators, empty ones included.\<close>

fun split_on_acc :: "char \<Rightarrow> string \<Rightarrow> string \<Rightarrow> string list" where
  "split_on_acc d cur [] = [cur]"
| "split_on_acc d cur (c # cs) =
     (if c = d then cur # split_on_acc d [] cs else split_on_acc d (cur @ [c]) cs)"

definition split_on :: "char \<Rightarrow> string \<Rightarrow> string list" where
  "split_on d s = split_on_acc d [] s"

text \<open>\<^verbatim>\<open>sep.join(xs)\<close>.\<close>

fun join :: "string \<Rightarrow> string list \<Rightarrow> string" where
  "join sep [] = []"
| "join sep [x] = x"
| "join sep (x # y # ys) = x @ sep @ join sep (y # ys)"

text \<open>
  \<^verbatim>\<open>s.lower()\<close> on code points below 256: the letters A..Z and the Latin-1 capitals
  0xC0..0xDE (without the multiplication sign 0xD7) move up by 32.
\<close>

definition lower_char :: "char \<Rightarrow> char" where
  "lower_char c =
     (let n = (of_char c :: nat)
      in if (65 \<le> n \<and> n \<le> 90) \<or> (192 \<le> n \<and> n \<le> 214) \<or> (216 \<le> n \<and> n \<le> 222)
         then char_of (n + 32) else c)"

definition lower :: "string \<Rightarrow> string" where
  "lower s = map lower_char s"

text \<open>\<^verbatim>\<open>sub in s\<close> on strings: \<open>sub\<close> occurs in \<open>s\<close> as a contiguous block.\<close>

fun contains :: "string \<Rightarrow> string \<Rightarrow> bool" where
  "contains [] sub = (sub = [])"
| "contains (c # cs) sub = (prefix sub (c # cs) \<or> contains cs sub)"

text \<open>\<^verbatim>\<open>a or b\<close> on strings: the first operand unless it is empty.\<close>

definition or_str :: "string \<Rightarrow> string \<Rightarrow> string" where
  "or_str a b = (if a \<noteq> [] then a else b)"

text \<open>\<^verbatim>\<open>str(n)\<close> of an integer: decimal digits, with a minus sign below zero.\<close>

definition digit_char :: "nat \<Rightarrow> char" where
  "digit_char d = ''0123456789'' ! d"

fun str_nat :: "nat \<Rightarrow> string" where
  "str_nat n = (if n < 10 then [digit_char n] else str_nat (n div 10) @ [digit_char (n mod 10)])"

declare str_nat.simps [simp del]

definition str_int :: "int \<Rightarrow> string" where
  "str_int i = (if i < 0 then CHR ''-'' # str_nat (nat (- i)) else str_nat (nat i))"

text \<open>Two lower-case hexadecimal digits of a code point, as \<^verbatim>\<open>'%02x'\<close> prints them.\<close>

definition hex_digit :: "nat \<Rightarrow> char" where
  "hex_digit d = ''0123456789abcdef'' ! d"

definition hex2 :: "char \<Rightarrow> string" where
  "hex2 c = (let n = (of_char c :: nat) in [hex_digit (n div 16), hex_digit (n mod 16)])"

text \<open>
  \<^verbatim>\<open>repr(s)\<close> of a string: single quotes, unless the string has a single quote and no
  double quote; the quote and the backslash are escaped, TAB, LF and CR get their
  letters, and every other code point that is not printable is written \<^verbatim>\<open>\xhh\<close>.
\<close>

definition printable :: "char \<Rightarrow> bool" where
  "printable c =
     (let n = (of_char c :: nat) in (32 \<le> n \<and> n \<le> 126) \<or> (161 \<le> n \<and> n \<noteq> 173))"

definition repr_char :: "char \<Rightarrow> char \<Rightarrow> string" where
  "repr_char q c =
     (if c = q \<or> c = CHR 0x5C then [CHR 0x5C, c]
      else if c = CHR 0x09 then [CHR 0x5C, CHR ''t'']
      else if c = CHR 0x0A then [CHR 0x5C, CHR ''n'']
      else if c = CHR 0x0D then [CHR 0x5C, CHR ''r'']
      else if printable c then [c]
      else [CHR 0x5C, CHR ''x''] @ hex2 c)"

definition repr_str :: "string \<Rightarrow> string" where
  "repr_str s =
     (let q = (if CHR 0x27 \<in> set s \<and> CHR 0x22 \<notin> set s then CHR 0x22 else CHR 0x27)
      in q # concat (map (repr_char q) s) @ [q])"

section \<open>JSON values\<close>

text \<open>
  The values \<^verbatim>\<open>json.loads\<close> returns: \<^verbatim>\<open>None\<close>, \<^verbatim>\<open>bool\<close>, \<^verbatim>\<open>int\<close>, \<^verbatim>\<open>float\<close>,
  \<^verbatim>\<open>str\<close>, \<^verbatim>\<open>list\<close> and \<^verbatim>\<open>dict\<close>. A dictionary keeps its insertion order, so it is an
  association list; a lookup takes the first binding of the key. A float is represented
  by the text \<^verbatim>\<open>str()\<close> prints for it (such as \<^verbatim>\<open>1.5\<close>, \<^verbatim>\<open>1e-05\<close>, \<^verbatim>\<open>inf\<close>, \<^verbatim>\<open>nan\<close>): a
  non-empty string over the digits, the signs, the point and the letters of
  \<^verbatim>\<open>e\<close>, \<^verbatim>\<open>inf\<close> and \<^verbatim>\<open>nan\<close>.
\<close>

definition float_chars :: "string" where
  "float_chars = ''+-.0123456789aefin''"

definition float_text_ok :: "string \<Rightarrow> bool" where
  "float_text_ok s = (s \<noteq> [] \<and> list_all (\<lambda>c. c \<in> set float_chars) s)"

typedef float_text = "{s. float_text_ok s}"
  by (rule exI [of _ "''0.0''"]) (simp add: float_text_ok_def float_chars_def)

datatype json =
    JNull
  | JBool bool
  | JInt int
  | JFloat float_text
  | JString string
  | JArray "json list"
  | JObject "(string \<times> json) list"

type_synonym dict = "(string \<times> json) list"

text \<open>\<^verbatim>\<open>str(v)\<close> and \<^verbatim>\<open>repr(v)\<close>; they differ on strings only.\<close>

fun py_repr :: "json \<Rightarrow> string" where
  "py_repr JNull = ''None''"
| "py_repr (JBool b) = (if b then ''True'' else ''False'')"
| "py_repr (JInt i) = str_int i"
| "py_repr (JFloat t) = Rep_float_text t"
| "py_repr (JString s) = repr_str s"
| "py_repr (JArray xs) = ''['' @ join '', '' (map py_repr xs) @ '']''"
| "py_repr (JObject kvs) =
     ''{'' @ join '', '' (map (\<lambda>kv. repr_str (fst kv) @ '': '' @ py_repr (snd kv)) kvs) @ ''}''"

definition py_str :: "json \<Rightarrow> string" where
  "py_str v = (case v of JString s \<Rightarrow> s | _ \<Rightarrow> py_repr v)"

text \<open>Truth value of a value, as \<^verbatim>\<open>or\<close>, \<^verbatim>\<open>not\<close> and \<^verbatim>\<open>if\<close> take it.\<close>

definition truthy :: "json \<Rightarrow> bool" where
  "truthy v =
     (case v of
        JNull \<Rightarrow> False
      | JBool b \<Rightarrow> b
      | JInt i \<Rightarrow> i \<noteq> 0
      | JFloat t \<Rightarrow> Rep_float_text t \<noteq> ''0.0'' \<and> Rep_float_text t \<noteq> ''-0.0''
      | JString s \<Rightarrow> s \<noteq> []
      | JArray xs \<Rightarrow> xs \<noteq> []
      | JObject kvs \<Rightarrow> kvs \<noteq> [])"

text \<open>\<^verbatim>\<open>d.get(k)\<close>, \<^verbatim>\<open>k in d\<close> and \<^verbatim>\<open>d[k] = v\<close> on a dictionary.\<close>

definition dict_get :: "dict \<Rightarrow> string \<Rightarrow> json" where
  "dict_get d k = (case map_of d k of None \<Rightarrow> JNull | Some v \<Rightarrow> v)"

definition dict_has :: "dict \<Rightarrow> string \<Rightarrow> bool" where
  "dict_has d k = (map_of d k \<noteq> None)"

fun dict_set :: "dict \<Rightarrow> string \<Rightarrow> json \<Rightarrow> dict" where
  "dict_set [] k v = [(k, v)]"
| "dict_set (p # ps) k v = (if fst p = k then (k, v) # ps else p # dict_set ps k v)"

text \<open>
  \<^verbatim>\<open>json.dumps(v)\<close> with its defaults: \<^verbatim>\<open>", "\<close> between items, \<^verbatim>\<open>": "\<close> after a key, and
  strings escaped to ASCII (\<^verbatim>\<open>ensure_ascii\<close>): the double quote and the backslash get a
  backslash, BS, FF, LF, CR and TAB their letters, every other code point outside
  \<^verbatim>\<open>' '..'~'\<close> is written \<^verbatim>\<open>\u00hh\<close>.
\<close>

definition dumps_char :: "char \<Rightarrow> string" where
  "dumps_char c =
     (if c = CHR 0x22 \<or> c = CHR 0x5C then [CHR 0x5C, c]
      else if c = CHR 0x08 then [CHR 0x5C, CHR ''b'']
      else if c = CHR 0x0C then [CHR 0x5C, CHR ''f'']
      else if c = CHR 0x0A then [CHR 0x5C, CHR ''n'']
      else if c = CHR 0x0D then [CHR 0x5C, CHR ''r'']
      else if c = CHR 0x09 then [CHR 0x5C, CHR ''t'']
      else if 32 \<le> (of_char c :: nat) \<and> (of_char c :: nat) \<le> 126 then [c]
      else [CHR 0x5C, CHR ''u'', CHR ''0'', CHR ''0''] @ hex2 c)"

definition dumps_str :: "string \<Rightarrow> string" where
  "dumps_str s = CHR 0x22 # concat (map dumps_char s) @ [CHR 0x22]"

definition dumps_float :: "float_text \<Rightarrow> string" where
  "dumps_float t =
     (let s = Rep_float_text t
      in if s = ''nan'' then ''NaN''
         else if s = ''inf'' then ''Infinity''
         else if s = ''-inf'' then ''-Infinity''
         else s)"

fun json_dumps :: "json \<Rightarrow> string" where
  "json_dumps JNull = ''null''"
| "json_dumps (JBool b) = (if b then ''true'' else ''false'')"
| "json_dumps (JInt i) = str_int i"
| "json_dumps (JFloat t) = dumps_float t"
| "json_dumps (JString s) = dumps_str s"
| "json_dumps (JArray xs) = ''['' @ join '', '' (map json_dumps xs) @ '']''"
| "json_dumps (JObject kvs) =
     ''{'' @ join '', '' (map (\<lambda>kv. dumps_str (fst kv) @ '': '' @ json_dumps (snd kv)) kvs) @ ''}''"

section \<open>The process and its collaborators\<close>

text \<open>
  What a run leaves behind: the text written to standard output and to standard error,
  the HTTP requests handed to \<^verbatim>\<open>urlopen\<close>, and the bytes the run read from the provider's
  response body.
\<close>

type_synonym bytes = "char list"

record http_request =
  req_url :: string
  req_data :: dict
  req_headers :: "(string \<times> string) list"
  req_timeout :: string

text \<open>
  \<open>req_data\<close> is the dictionary that \<^verbatim>\<open>json.dumps(body).encode("utf-8")\<close> serialises; the
  method is always POST; \<open>req_timeout\<close> is the text that \<^verbatim>\<open>float()\<close> converted.
\<close>

record io =
  stdout :: string
  stderr :: string
  requests :: "http_request list"
  body_read :: bytes

definition io_init :: io where
  "io_init = \<lparr>stdout = [], stderr = [], requests = [], body_read = []\<rparr>"

text \<open>
  The exceptions that no handler of the adapters catches. A run that ends in one prints a
  traceback and the interpreter exits with status 1.
\<close>

datatype py_exception = AttributeError | ValueError

datatype 'a result = Return 'a | Raise py_exception

definition exit_code :: "int result \<Rightarrow> int" where
  "exit_code r = (case r of Return n \<Rightarrow> n | Raise e \<Rightarrow> 1)"

text \<open>
  What \<^verbatim>\<open>urlopen\<close> does with a request: it returns a response with a status and a body, or
  raises \<^verbatim>\<open>HTTPError\<close> with a code and a body, or raises any other exception, of which the
  adapters use the text only.
\<close>

datatype urlopen_result =
    Response int bytes
  | HTTPError int bytes
  | OtherError string

text \<open>
  The library and the network are parameters of a run:
  \<^item> \<open>json_loads\<close>: the decoded value, or the text of the \<^verbatim>\<open>JSONDecodeError\<close>;
  \<^item> \<open>float_ok\<close>: whether \<^verbatim>\<open>float(s)\<close> accepts the text (it raises \<^verbatim>\<open>ValueError\<close> otherwise);
  \<^item> \<open>request_ok\<close>: whether \<^verbatim>\<open>urllib.request.Request(url)\<close> accepts the URL (it raises
    \<^verbatim>\<open>ValueError\<close> on a URL without a scheme);
  \<^item> \<open>urlopen\<close>: the outcome of the request;
  \<^item> \<open>decode_utf8\<close>: \<^verbatim>\<open>bytes.decode("utf-8", errors="replace")\<close>.
\<close>

record pylib =
  json_loads :: "string \<Rightarrow> string + json"
  float_ok :: "string \<Rightarrow> bool"
  request_ok :: "string \<Rightarrow> bool"
  urlopen :: "http_request \<Rightarrow> urlopen_result"
  decode_utf8 :: "bytes \<Rightarrow> string"

text \<open>The environment: \<^verbatim>\<open>os.environ.get(name)\<close> is \<^verbatim>\<open>None\<close> or a string.\<close>

type_synonym env = "string \<Rightarrow> string option"

definition environ_get :: "env \<Rightarrow> string \<Rightarrow> json" where
  "environ_get e name = (case e name of None \<Rightarrow> JNull | Some s \<Rightarrow> JString s)"

text \<open>\<^verbatim>\<open>body.read()\<close> reads the whole body, \<^verbatim>\<open>body.read(n)\<close> at most \<open>n\<close> bytes of it.\<close>

definition read_all :: "bytes \<Rightarrow> bytes" where
  "read_all b = b"

definition read_upto :: "nat \<Rightarrow> bytes \<Rightarrow> bytes" where
  "read_upto n b = take n b"

text \<open>
  \<^verbatim>\<open>fail(message)\<close> of both adapters: one write to standard error, and the exit code 1.
\<close>

definition fail :: "string \<Rightarrow> io \<Rightarrow> int result \<times> io" where
  "fail message s = (Return 1, s\<lparr>stderr := stderr s @ strip message @ [CHR 0x0A]\<rparr>)"

text \<open>\<^verbatim>\<open>print(text)\<close>: the text and a newline on standard output.\<close>

definition print :: "string \<Rightarrow> io \<Rightarrow> io" where
  "print text s = s\<lparr>stdout := stdout s @ text @ [CHR 0x0A]\<rparr>"

text \<open>\<^verbatim>\<open>isinstance(v, dict)\<close>, \<^verbatim>\<open>isinstance(v, str)\<close> and \<^verbatim>\<open>isinstance(v, list)\<close>.\<close>

definition as_dict :: "json \<Rightarrow> dict option" where
  "as_dict v = (case v of JObject d \<Rightarrow> Some d | _ \<Rightarrow> None)"

definition as_str :: "json \<Rightarrow> string option" where
  "as_str v = (case v of JString s \<Rightarrow> Some s | _ \<Rightarrow> None)"

definition as_list :: "json \<Rightarrow> json list option" where
  "as_list v = (case v of JArray xs \<Rightarrow> Some xs | _ \<Rightarrow> None)"

text \<open>
  \<^verbatim>\<open>map_lookup(values, *keys)\<close> of both adapters: the value of the first key that the
  dictionary has, \<^verbatim>\<open>None\<close> when it has none of them or is no dictionary.
\<close>

fun lookup_keys :: "dict \<Rightarrow> string list \<Rightarrow> json" where
  "lookup_keys d [] = JNull"
| "lookup_keys d (k # ks) = (if dict_has d k then dict_get d k else lookup_keys d ks)"

definition map_lookup :: "json \<Rightarrow> string list \<Rightarrow> json" where
  "map_lookup values keys = (case as_dict values of None \<Rightarrow> JNull | Some d \<Rightarrow> lookup_keys d keys)"

text \<open>
  \<^verbatim>\<open>map_lookup(approval, "payload", "Payload") or {}\<close> followed by the
  \<^verbatim>\<open>isinstance(payload, dict)\<close> test: the payload dictionary, or nothing when the value is
  true and no dictionary.
\<close>

definition payload_of :: "dict \<Rightarrow> dict option" where
  "payload_of approval =
     (let payload = (let v = map_lookup (JObject approval) [''payload'', ''Payload'']
                     in if truthy v then v else JObject [])
      in as_dict payload)"

section \<open>The email adapter: \<^verbatim>\<open>resend/run.py\<close>\<close>

definition str_or_empty :: "json \<Rightarrow> string" where
  "str_or_empty v = (if v = JNull then [] else strip (py_str v))"

definition normalize_recipients :: "json \<Rightarrow> string list" where
  "normalize_recipients v =
     (case v of
        JNull \<Rightarrow> []
      | JString s \<Rightarrow> filter (\<lambda>item. item \<noteq> []) (map strip (split_on CHR '','' s))
      | JArray xs \<Rightarrow> filter (\<lambda>item. item \<noteq> []) (map str_or_empty xs)
      | _ \<Rightarrow> [])"

text \<open>
  The loop of \<^verbatim>\<open>parse_message\<close> over the keys \<^verbatim>\<open>message\<close>, \<^verbatim>\<open>error\<close>, \<^verbatim>\<open>detail\<close>: the
  first usable text, if any key has one.
\<close>

fun parse_message_keys :: "dict \<Rightarrow> string list \<Rightarrow> string option" where
  "parse_message_keys decoded [] = None"
| "parse_message_keys decoded (key # keys) =
     (let v = dict_get decoded key
      in case v of
           JString s \<Rightarrow> (if strip s \<noteq> [] then Some (strip s) else parse_message_keys decoded keys)
         | JObject d \<Rightarrow>
             (case dict_get d ''message'' of
                JString n \<Rightarrow> (if strip n \<noteq> [] then Some (strip n)
                               else parse_message_keys decoded keys)
              | _ \<Rightarrow> parse_message_keys decoded keys)
         | _ \<Rightarrow> parse_message_keys decoded keys)"

definition parse_message :: "pylib \<Rightarrow> string \<Rightarrow> string" where
  "parse_message lib response_body =
     (if response_body = [] then []
      else case json_loads lib response_body of
             Inl err \<Rightarrow> strip response_body
           | Inr decoded \<Rightarrow>
               (case as_dict decoded of
                  None \<Rightarrow> strip response_body
                | Some d \<Rightarrow>
                    (case parse_message_keys d [''message'', ''error'', ''detail''] of
                       Some m \<Rightarrow> m
                     | None \<Rightarrow> strip response_body)))"

text \<open>Lines 100 to 128 of \<^verbatim>\<open>main\<close>: the request body, key by key.\<close>

definition resend_body ::
  "dict \<Rightarrow> string \<Rightarrow> string list \<Rightarrow> string \<Rightarrow> string \<Rightarrow> string \<Rightarrow> dict" where
  "resend_body payload from_value to_values subject text html =
     (let cc_values = normalize_recipients (dict_get payload ''cc'');
          bcc_values = normalize_recipients (dict_get payload ''bcc'');
          body = [(''from'', JString from_value),
                  (''to'', JArray (map JString to_values)),
                  (''subject'', JString subject)];
          body = (if text \<noteq> [] then dict_set body ''text'' (JString text) else body);
          body = (if html \<noteq> [] then dict_set body ''html'' (JString html) else body);
          body = (if cc_values \<noteq> [] then dict_set body ''cc'' (JArray (map JString cc_values))
                  else body);
          body = (if bcc_values \<noteq> [] then dict_set body ''bcc'' (JArray (map JString bcc_values))
                  else body);
          reply_to = dict_get payload ''reply_to'';
          body = (case reply_to of
                    JString r \<Rightarrow>
                      (if strip r \<noteq> [] then dict_set body ''reply_to'' (JString (strip r))
                       else body)
                  | JArray rs \<Rightarrow>
                      (let normalized = normalize_recipients reply_to
                       in if normalized \<noteq> []
                          then dict_set body ''reply_to'' (JArray (map JString normalized))
                          else body)
                  | _ \<Rightarrow> body);
          tags = dict_get payload ''tags'';
          body = (case as_list tags of Some ts \<Rightarrow> dict_set body ''tags'' tags | None \<Rightarrow> body);
          headers = dict_get payload ''headers'';
          body = (case as_dict headers of Some hs \<Rightarrow> dict_set body ''headers'' headers
                  | None \<Rightarrow> body)
      in body)"

text \<open>Lines 164 to 171 of \<^verbatim>\<open>main\<close>: the identifier of the email in the response.\<close>

definition resend_email_id :: "pylib \<Rightarrow> string \<Rightarrow> string" where
  "resend_email_id lib response_text =
     (if response_text = [] then []
      else case json_loads lib response_text of
             Inl err \<Rightarrow> []
           | Inr parsed \<Rightarrow>
               (case as_dict parsed of
                  None \<Rightarrow> []
                | Some d \<Rightarrow> str_or_empty (dict_get d ''id'')))"

text \<open>Lines 150 to 178 of \<^verbatim>\<open>main\<close>: the request is sent and its outcome reported.\<close>

definition resend_dispatch ::
  "pylib \<Rightarrow> http_request \<Rightarrow> string list \<Rightarrow> io \<Rightarrow> int result \<times> io" where
  "resend_dispatch lib req to_values s0 =
     (let s1 = s0\<lparr>requests := requests s0 @ [req]\<rparr>
      in case urlopen lib req of
           OtherError err \<Rightarrow> fail (''resend request failed: '' @ err) s1
         | HTTPError code content \<Rightarrow>
             (let raw_body = read_all content;
                  s2 = s1\<lparr>body_read := body_read s1 @ raw_body\<rparr>;
                  error_body = decode_utf8 lib raw_body;
                  message = or_str (parse_message lib error_body) (''HTTP '' @ str_int code)
              in fail (''resend request failed: status='' @ str_int code @ '' message='' @ message)
                   s2)
         | Response status content \<Rightarrow>
             (let raw_body = read_all content;
                  s2 = s1\<lparr>body_read := body_read s1 @ raw_body\<rparr>;
                  response_text = decode_utf8 lib raw_body;
                  status_code = status
              in if status_code < 200 \<or> status_code \<ge> 300
                 then fail (''resend request failed: unexpected status '' @ str_int status_code) s2
                 else
                   (let email_id = resend_email_id lib response_text;
                        recipients = join '', '' to_values;
                        message = ''resend email sent to '' @ recipients;
                        message = (if email_id \<noteq> [] then message @ '' (id: '' @ email_id @ '')''
                                   else message)
                    in (Return 0,
                        print (json_dumps (JObject [(''message'', JString message),
                                                    (''plugin'', JString ''external_resend_email'')]))
                          s2))))"

text \<open>
  Lines 76 to 148 of \<^verbatim>\<open>main\<close>: the fields are normalised and validated, the body and the
  request are built. \<^verbatim>\<open>float\<close> and \<^verbatim>\<open>Request\<close> stand outside every \<^verbatim>\<open>try\<close>.
\<close>

definition resend_request :: "pylib \<Rightarrow> env \<Rightarrow> dict \<Rightarrow> dict \<Rightarrow> int result \<times> io" where
  "resend_request lib e approval payload =
     (let action_target =
            str_or_empty (map_lookup (JObject approval) [''action_target'', ''ActionTarget'']);
          action_summary =
            str_or_empty (map_lookup (JObject approval) [''action_summary'', ''ActionSummary'']);
          to_values = normalize_recipients (dict_get payload ''to'');
          to_values = (if to_values = [] \<and> action_target \<noteq> []
                       then normalize_recipients (JString action_target) else to_values)
      in if to_values = []
         then fail ''resend_email requires payload.to or action target recipient email'' io_init
         else
     (let from_value = or_str (str_or_empty (dict_get payload ''from''))
                              (str_or_empty (environ_get e ''RESEND_FROM''))
      in if from_value = []
         then fail ''resend_email requires payload.from or RESEND_FROM env var'' io_init
         else
     (let subject = or_str (or_str (str_or_empty (dict_get payload ''subject'')) action_summary)
                           ''Message from agent-runtime'';
          text = str_or_empty (dict_get payload ''text'');
          html = str_or_empty (dict_get payload ''html'');
          text = (if text = [] \<and> html = [] then action_summary else text)
      in if text = [] \<and> html = []
         then fail ''resend_email requires payload.text or payload.html (or non-empty summary)''
                io_init
         else
     (let body = resend_body payload from_value to_values subject text html;
          api_key = str_or_empty (environ_get e ''RESEND_API_KEY'')
      in if api_key = [] then fail ''resend plugin missing RESEND_API_KEY'' io_init
         else
     (let base = or_str (str_or_empty (environ_get e ''RESEND_API_BASE''))
                        ''https://api.resend.com'';
          endpoint = rstrip_slash base @ ''/emails'';
          timeout_text = or_str (str_or_empty (environ_get e ''RESEND_TIMEOUT_SEC'')) ''30''
      in if \<not> float_ok lib timeout_text then (Raise ValueError, io_init)
         else if \<not> request_ok lib endpoint then (Raise ValueError, io_init)
         else resend_dispatch lib
                \<lparr>req_url = endpoint, req_data = body,
                 req_headers = [(''Authorization'', ''Bearer '' @ api_key),
                                (''Content-Type'', ''application/json''),
                                (''User-Agent'', ''curl/8.7.1'')],
                 req_timeout = timeout_text\<rparr>
                to_values io_init)))))"

text \<open>
  \<^verbatim>\<open>main\<close> of the email adapter: lines 59 to 74 read the document, the rest is above.
  \<^verbatim>\<open>request.get\<close> on a document that is no dictionary raises \<^verbatim>\<open>AttributeError\<close>.
\<close>

definition resend_main :: "pylib \<Rightarrow> env \<Rightarrow> string \<Rightarrow> int result \<times> io" where
  "resend_main lib e raw =
     (if strip raw = [] then fail ''resend plugin expected request JSON on stdin'' io_init
      else case json_loads lib raw of
        Inl err \<Rightarrow> fail (''resend plugin invalid stdin JSON: '' @ err) io_init
      | Inr request \<Rightarrow>
      (case as_dict request of
        None \<Rightarrow> (Raise AttributeError, io_init)
      | Some doc \<Rightarrow>
      (case as_dict (dict_get doc ''action_approval'') of
        None \<Rightarrow> fail ''resend plugin missing action_approval object'' io_init
      | Some approval \<Rightarrow>
      (case payload_of approval of
        None \<Rightarrow> fail ''resend plugin payload must be a JSON object'' io_init
      | Some payload \<Rightarrow> resend_request lib e approval payload))))"

section \<open>The automation adapter: \<^verbatim>\<open>tinyfish/run.py\<close>\<close>

definition MAX_BODY_BYTES :: nat where
  "MAX_BODY_BYTES = 128 * 1024"

definition trim :: "json \<Rightarrow> string" where
  "trim v = (if v = JNull then [] else strip (py_str v))"

definition compact :: "string \<Rightarrow> string" where
  "compact v =
     (let text = join '' '' (split_ws (strip v))
      in if length text \<le> 1200 then text else take 1200 text @ ''...'')"

definition map_string :: "json \<Rightarrow> string \<Rightarrow> string" where
  "map_string values key = (case as_dict values of None \<Rightarrow> [] | Some d \<Rightarrow> trim (dict_get d key))"

definition nested_map_string :: "json \<Rightarrow> string \<Rightarrow> string \<Rightarrow> string" where
  "nested_map_string values parent child =
     (case as_dict values of
        None \<Rightarrow> []
      | Some d \<Rightarrow>
          (let nested = dict_get d parent
           in case as_dict nested of None \<Rightarrow> [] | Some n \<Rightarrow> map_string nested child))"

fun first_non_empty :: "string list \<Rightarrow> string" where
  "first_non_empty [] = []"
| "first_non_empty (v # vs) =
     (let t = trim (JString v) in if t \<noteq> [] then t else first_non_empty vs)"

text \<open>
  \<^verbatim>\<open>parse_error_message\<close> calls \<^verbatim>\<open>decoded.get\<close> on whatever \<^verbatim>\<open>json.loads\<close> returned; on a
  value that is no dictionary this raises \<^verbatim>\<open>AttributeError\<close>.
\<close>

definition parse_error_message :: "pylib \<Rightarrow> string \<Rightarrow> string result" where
  "parse_error_message lib raw =
     (let text = trim (JString raw)
      in if text = [] then Return ''no response body''
         else case json_loads lib text of
                Inl err \<Rightarrow> Return (compact text)
              | Inr decoded \<Rightarrow>
                  (case as_dict decoded of
                     None \<Rightarrow> Raise AttributeError
                   | Some d \<Rightarrow>
                       (let error_value = dict_get d ''error'';
                            fallback = compact (first_non_empty
                                         [map_string decoded ''message'',
                                          map_string decoded ''detail'',
                                          text])
                        in case error_value of
                             JString s \<Rightarrow>
                               (if trim error_value \<noteq> [] then Return (compact s)
                                else Return fallback)
                           | JObject ed \<Rightarrow>
                               (let nested = map_string error_value ''message''
                                in if nested \<noteq> [] then Return (compact nested)
                                   else Return fallback)
                           | _ \<Rightarrow> Return fallback)))"

definition parse_json_or_none :: "pylib \<Rightarrow> string \<Rightarrow> json" where
  "parse_json_or_none lib raw = (case json_loads lib raw of Inl err \<Rightarrow> JNull | Inr v \<Rightarrow> v)"

definition is_async_action :: "string \<Rightarrow> dict \<Rightarrow> bool" where
  "is_async_action action_type payload =
     (if lower (trim (JString action_type)) = ''tinyfish_async'' then True
      else if dict_get payload ''async'' = JBool True then True
      else (let mode = lower (trim (dict_get payload ''mode'')) in mode = ''async''))"

definition resolve_goal :: "string \<Rightarrow> string \<Rightarrow> dict \<Rightarrow> string" where
  "resolve_goal summary action_target payload =
     (let goal = trim (dict_get payload ''goal'');
          goal = (if goal = [] then trim (dict_get payload ''task'') else goal);
          goal = (if goal = [] then trim (JString summary) else goal);
          target = trim (JString action_target);
          goal = (if goal \<noteq> [] \<and> target \<noteq> [] \<and> \<not> contains (lower goal) (lower target)
                  then goal @ [CHR 0x0A] @ ''Target URL: '' @ target else goal)
      in trim (JString goal))"

definition resolve_url :: "string \<Rightarrow> dict \<Rightarrow> dict \<Rightarrow> string" where
  "resolve_url action_target payload request_body =
     (let request_url = map_string (JObject request_body) ''url''
      in if request_url \<noteq> [] then request_url
         else (let payload_url = trim (dict_get payload ''url'')
               in if payload_url \<noteq> [] then payload_url else trim (JString action_target)))"

text \<open>
  \<^verbatim>\<open>build_request\<close> returns the request body or raises \<^verbatim>\<open>ValueError\<close> with a message,
  which \<^verbatim>\<open>main\<close> catches: the message is the left summand.
\<close>

definition build_request :: "string \<Rightarrow> string \<Rightarrow> dict \<Rightarrow> string + dict" where
  "build_request summary action_target payload =
     (let request_body = (case as_dict (dict_get payload ''request'') of None \<Rightarrow> [] | Some r \<Rightarrow> r);
          goal = map_string (JObject request_body) ''goal''
      in case (if goal = []
               then (let goal = resolve_goal summary action_target payload
                     in if goal = []
                        then Inl ''tinyfish action requires payload.goal, payload.task, or summary''
                        else Inr (dict_set request_body ''goal'' (JString goal)))
               else Inr request_body) of
           Inl err \<Rightarrow> Inl err
         | Inr request_body \<Rightarrow>
             (let url = resolve_url action_target payload request_body
              in if url = []
                 then Inl ''tinyfish action requires payload.url, payload.request.url, or action_target''
                 else Inr (dict_set request_body ''url'' (JString url))))"

definition summarize_response :: "pylib \<Rightarrow> bool \<Rightarrow> string \<Rightarrow> string" where
  "summarize_response lib async_mode raw =
     (let text = trim (JString raw)
      in if text = [] then (if async_mode then ''tinyfish run queued'' else ''tinyfish run completed'')
         else
           (let decoded = parse_json_or_none lib text
            in case as_dict decoded of
                 None \<Rightarrow> ''tinyfish request completed: '' @ compact text
               | Some d \<Rightarrow>
                   (let run_id = first_non_empty
                                   [map_string decoded ''run_id'',
                                    nested_map_string decoded ''data'' ''run_id'',
                                    nested_map_string decoded ''run'' ''id'']
                    in if async_mode
                       then (if run_id \<noteq> [] then ''tinyfish run queued with run_id '' @ run_id
                             else ''tinyfish run queued'')
                       else
                         (let output = first_non_empty
                                         [map_string decoded ''result'',
                                          map_string decoded ''output'',
                                          map_string decoded ''message'',
                                          nested_map_string decoded ''data'' ''result'',
                                          nested_map_string decoded ''data'' ''output'']
                          in if output \<noteq> []
                             then (if run_id \<noteq> []
                                   then ''tinyfish run completed ('' @ run_id @ ''): '' @ compact output
                                   else ''tinyfish run completed: '' @ compact output)
                             else if run_id \<noteq> [] then ''tinyfish run completed with run_id '' @ run_id
                             else ''tinyfish run completed''))))"

text \<open>
  The failure report of lines 236 and 241: the message is computed first, and an exception
  of \<^verbatim>\<open>parse_error_message\<close> leaves the run before anything is written.
\<close>

definition tinyfish_fail_status :: "pylib \<Rightarrow> int \<Rightarrow> string \<Rightarrow> io \<Rightarrow> int result \<times> io" where
  "tinyfish_fail_status lib code body_text s =
     (case parse_error_message lib body_text of
        Raise ex \<Rightarrow> (Raise ex, s)
      | Return m \<Rightarrow>
          fail (''tinyfish request failed: status='' @ str_int code @ '' message='' @ m) s)"

text \<open>Lines 230 to 245 of \<^verbatim>\<open>main\<close>: the request is sent and its outcome reported.\<close>

definition tinyfish_dispatch ::
  "pylib \<Rightarrow> http_request \<Rightarrow> bool \<Rightarrow> io \<Rightarrow> int result \<times> io" where
  "tinyfish_dispatch lib req async_mode s0 =
     (let s1 = s0\<lparr>requests := requests s0 @ [req]\<rparr>
      in case urlopen lib req of
           OtherError err \<Rightarrow> fail (''tinyfish request failed: '' @ err) s1
         | HTTPError code content \<Rightarrow>
             (let raw_body = read_upto MAX_BODY_BYTES content;
                  s2 = s1\<lparr>body_read := body_read s1 @ raw_body\<rparr>;
                  error_body = decode_utf8 lib raw_body
              in tinyfish_fail_status lib code error_body s2)
         | Response status_value content \<Rightarrow>
             (let raw_body = read_upto MAX_BODY_BYTES content;
                  s2 = s1\<lparr>body_read := body_read s1 @ raw_body\<rparr>;
                  response_text = decode_utf8 lib raw_body;
                  status = status_value
              in if status < 200 \<or> status \<ge> 300
                 then tinyfish_fail_status lib status response_text s2
                 else
                   (let message = summarize_response lib async_mode response_text
                    in (Return 0,
                        print (json_dumps (JObject [(''message'', JString message),
                                                    (''plugin'', JString ''tinyfish_agentic_web'')]))
                          s2))))"

text \<open>
  Lines 198 to 229 of \<^verbatim>\<open>main\<close>: the mode, the request body and the request.
  \<^verbatim>\<open>Request\<close> and \<^verbatim>\<open>float\<close> stand outside every \<^verbatim>\<open>try\<close>.
\<close>

definition tinyfish_request :: "pylib \<Rightarrow> env \<Rightarrow> dict \<Rightarrow> dict \<Rightarrow> int result \<times> io" where
  "tinyfish_request lib e approval payload =
     (let action_type = trim (map_lookup (JObject approval) [''action_type'', ''ActionType'']);
          action_target = trim (map_lookup (JObject approval) [''action_target'', ''ActionTarget'']);
          action_summary =
            trim (map_lookup (JObject approval) [''action_summary'', ''ActionSummary'']);
          async_mode = is_async_action action_type payload;
          endpoint = (if async_mode then ''/v1/automation/run-async'' else ''/v1/automation/run'')
      in case build_request action_summary action_target payload of
           Inl err \<Rightarrow> fail err io_init
         | Inr body \<Rightarrow>
     (let api_key = trim (environ_get e ''TINYFISH_API_KEY'')
      in if api_key = [] then fail ''tinyfish plugin is not configured: missing api key'' io_init
         else
     (let base_url = or_str (trim (environ_get e ''TINYFISH_BASE_URL'')) ''https://agent.tinyfish.ai'';
          base_url = rstrip_slash base_url;
          request_url = base_url @ endpoint
      in if \<not> request_ok lib request_url then (Raise ValueError, io_init)
         else
     (let timeout_text = or_str (trim (environ_get e ''TINYFISH_TIMEOUT_SEC'')) ''90''
      in if \<not> float_ok lib timeout_text then (Raise ValueError, io_init)
         else tinyfish_dispatch lib
                \<lparr>req_url = request_url, req_data = body,
                 req_headers = [(''X-API-Key'', api_key),
                                (''Content-Type'', ''application/json'')],
                 req_timeout = timeout_text\<rparr>
                async_mode io_init))))"

text \<open>
  \<^verbatim>\<open>main\<close> of the automation adapter: lines 182 to 196 read the document, the rest is
  above.
\<close>

definition tinyfish_main :: "pylib \<Rightarrow> env \<Rightarrow> string \<Rightarrow> int result \<times> io" where
  "tinyfish_main lib e raw =
     (if trim (JString raw) = [] then fail ''tinyfish plugin expected request JSON on stdin'' io_init
      else case json_loads lib raw of
        Inl err \<Rightarrow> fail (''tinyfish plugin invalid stdin JSON: '' @ err) io_init
      | Inr request \<Rightarrow>
      (case as_dict request of
        None \<Rightarrow> (Raise AttributeError, io_init)
      | Some doc \<Rightarrow>
      (case as_dict (dict_get doc ''action_approval'') of
        None \<Rightarrow> fail ''tinyfish plugin missing action_approval object'' io_init
      | Some approval \<Rightarrow>
      (case payload_of approval of
        None \<Rightarrow> fail ''tinyfish plugin payload must be a JSON object'' io_init
      | Some payload \<Rightarrow> tinyfish_request lib e approval payload))))"

section \<open>The claims in the words of the specification\<close>

text \<open>
  The three triggers of the asynchronous mode as the specification words them: the action
  type equals the sentinel ignoring case, the payload has the boolean \<^verbatim>\<open>async\<close> set, or the
  payload's \<^verbatim>\<open>mode\<close> equals \<^verbatim>\<open>async\<close> ignoring case.
\<close>

definition async_claimed :: "string \<Rightarrow> dict \<Rightarrow> bool" where
  "async_claimed action_type payload =
     (lower action_type = ''tinyfish_async'' \<or>
      dict_get payload ''async'' = JBool True \<or>
      (case dict_get payload ''mode'' of JString m \<Rightarrow> lower m = ''async'' | _ \<Rightarrow> False))"

text \<open>
  The input errors of the specification (empty standard input, invalid JSON, a missing or
  malformed \<^verbatim>\<open>action_approval\<close>, a malformed payload): there is no approval record with a
  payload to work on. \<open>decoded_request\<close> is the approval and its payload when there is.
\<close>

definition decoded_request :: "pylib \<Rightarrow> string \<Rightarrow> (dict \<times> dict) option" where
  "decoded_request lib raw =
     (if strip raw = [] then None
      else case json_loads lib raw of
             Inl err \<Rightarrow> None
           | Inr request \<Rightarrow>
               (case as_dict request of
                  None \<Rightarrow> None
                | Some doc \<Rightarrow>
                    (case as_dict (dict_get doc ''action_approval'') of
                       None \<Rightarrow> None
                     | Some approval \<Rightarrow>
                         (case payload_of approval of
                            None \<Rightarrow> None
                          | Some payload \<Rightarrow> Some (approval, payload)))))"

text \<open>
  The required fields of an email: the recipients (\<^verbatim>\<open>payload.to\<close>, else the action target),
  the sender (\<^verbatim>\<open>payload.from\<close>, else \<^verbatim>\<open>RESEND_FROM\<close>) and a content (\<^verbatim>\<open>text\<close>, \<^verbatim>\<open>html\<close> or the
  summary).
\<close>

definition email_recipients :: "dict \<Rightarrow> dict \<Rightarrow> string list" where
  "email_recipients approval payload =
     (if normalize_recipients (dict_get payload ''to'') \<noteq> []
      then normalize_recipients (dict_get payload ''to'')
      else normalize_recipients
             (JString (str_or_empty (map_lookup (JObject approval)
                                       [''action_target'', ''ActionTarget'']))))"

definition email_sender :: "env \<Rightarrow> dict \<Rightarrow> string" where
  "email_sender e payload =
     (if str_or_empty (dict_get payload ''from'') \<noteq> [] then str_or_empty (dict_get payload ''from'')
      else str_or_empty (environ_get e ''RESEND_FROM''))"

definition email_has_content :: "dict \<Rightarrow> dict \<Rightarrow> bool" where
  "email_has_content approval payload =
     (str_or_empty (dict_get payload ''text'') \<noteq> [] \<or>
      str_or_empty (dict_get payload ''html'') \<noteq> [] \<or>
      str_or_empty (map_lookup (JObject approval) [''action_summary'', ''ActionSummary'']) \<noteq> [])"

text \<open>
  The request that the email adapter builds from the normalised fields and the
  configuration.
\<close>

definition email_summary :: "dict \<Rightarrow> string" where
  "email_summary approval =
     str_or_empty (map_lookup (JObject approval) [''action_summary'', ''ActionSummary''])"

definition email_subject :: "dict \<Rightarrow> dict \<Rightarrow> string" where
  "email_subject approval payload =
     (if str_or_empty (dict_get payload ''subject'') \<noteq> []
      then str_or_empty (dict_get payload ''subject'')
      else if email_summary approval \<noteq> [] then email_summary approval
      else ''Message from agent-runtime'')"

definition email_text :: "dict \<Rightarrow> dict \<Rightarrow> string" where
  "email_text approval payload =
     (if str_or_empty (dict_get payload ''text'') = [] \<and> str_or_empty (dict_get payload ''html'') = []
      then email_summary approval
      else str_or_empty (dict_get payload ''text''))"

definition email_http_request :: "env \<Rightarrow> dict \<Rightarrow> dict \<Rightarrow> http_request" where
  "email_http_request e approval payload =
     \<lparr>req_url = rstrip_slash (or_str (str_or_empty (environ_get e ''RESEND_API_BASE''))
                               ''https://api.resend.com'') @ ''/emails'',
      req_data = resend_body payload (email_sender e payload) (email_recipients approval payload)
                   (email_subject approval payload) (email_text approval payload)
                   (str_or_empty (dict_get payload ''html'')),
      req_headers = [(''Authorization'', ''Bearer '' @ str_or_empty (environ_get e ''RESEND_API_KEY'')),
                     (''Content-Type'', ''application/json''),
                     (''User-Agent'', ''curl/8.7.1'')],
      req_timeout = or_str (str_or_empty (environ_get e ''RESEND_TIMEOUT_SEC'')) ''30''\<rparr>"

text \<open>
  The request that the automation adapter builds: the mode, the body of
  \<^verbatim>\<open>build_request\<close> (or its error) and the request with the endpoint of the mode.
\<close>

definition automation_async :: "dict \<Rightarrow> dict \<Rightarrow> bool" where
  "automation_async approval payload =
     is_async_action (trim (map_lookup (JObject approval) [''action_type'', ''ActionType''])) payload"

definition automation_body :: "dict \<Rightarrow> dict \<Rightarrow> string + dict" where
  "automation_body approval payload =
     build_request (trim (map_lookup (JObject approval) [''action_summary'', ''ActionSummary'']))
                   (trim (map_lookup (JObject approval) [''action_target'', ''ActionTarget'']))
                   payload"

definition automation_http_request :: "env \<Rightarrow> dict \<Rightarrow> dict \<Rightarrow> dict \<Rightarrow> http_request" where
  "automation_http_request e approval payload body =
     \<lparr>req_url = rstrip_slash (or_str (trim (environ_get e ''TINYFISH_BASE_URL''))
                               ''https://agent.tinyfish.ai'')
                 @ (if automation_async approval payload then ''/v1/automation/run-async''
                    else ''/v1/automation/run''),
      req_data = body,
      req_headers = [(''X-API-Key'', trim (environ_get e ''TINYFISH_API_KEY'')),
                     (''Content-Type'', ''application/json'')],
      req_timeout = or_str (trim (environ_get e ''TINYFISH_TIMEOUT_SEC'')) ''90''\<rparr>"

definition credential_missing :: "env \<Rightarrow> string \<Rightarrow> bool" where
  "credential_missing e name = (str_or_empty (environ_get e name) = [])"



text \<open>
  A run that failed before any network I/O: exit code 1, no request handed to \<^verbatim>\<open>urlopen\<close>,
  no byte read and nothing on standard output.
\<close>

definition quiet_failure :: "int result \<times> io \<Rightarrow> bool" where
  "quiet_failure run =
     (exit_code (fst run) = 1 \<and> requests (snd run) = [] \<and> stdout (snd run) = [] \<and>
      body_read (snd run) = [])"



text \<open>
  The sources of the automation goal in their order: \<^verbatim>\<open>payload.goal\<close>, \<^verbatim>\<open>payload.task\<close> and
  the summary of the approval, each coerced to a trimmed string; the first that is not
  empty, and the empty string when all are.
\<close>

definition goal_source :: "string \<Rightarrow> dict \<Rightarrow> string" where
  "goal_source summary payload =
     (if trim (dict_get payload ''goal'') \<noteq> [] then trim (dict_get payload ''goal'')
      else if trim (dict_get payload ''task'') \<noteq> [] then trim (dict_get payload ''task'')
      else strip summary)"

section \<open>Concrete runs\<close>

text \<open>
  A stand-in for the library in concrete runs: \<^verbatim>\<open>json.loads\<close> is given by a table of the
  texts that the run decodes (any other text is rejected with the message of
  \<^verbatim>\<open>JSONDecodeError\<close>), \<^verbatim>\<open>float\<close> accepts the two default timeouts, \<^verbatim>\<open>Request\<close> accepts the
  URLs with an HTTP scheme, every request gets the same reply, and the body is ASCII, so
  that decoding leaves it as it is.
\<close>

definition table_loads :: "(string \<times> json) list \<Rightarrow> string \<Rightarrow> string + json" where
  "table_loads table s =
     (case map_of table s of
        Some v \<Rightarrow> Inr v
      | None \<Rightarrow> Inl ''Expecting value: line 1 column 1 (char 0)'')"

definition demo_lib :: "(string \<times> json) list \<Rightarrow> urlopen_result \<Rightarrow> pylib" where
  "demo_lib table reply =
     \<lparr>json_loads = table_loads table,
      float_ok = (\<lambda>s. s = ''30'' \<or> s = ''90''),
      request_ok = (\<lambda>u. prefix ''https://'' u \<or> prefix ''http://'' u),
      urlopen = (\<lambda>req. reply),
      decode_utf8 = (\<lambda>b. b)\<rparr>"

definition demo_env :: env where
  "demo_env name =
     (if name = ''RESEND_API_KEY'' then Some ''re_key''
      else if name = ''TINYFISH_API_KEY'' then Some ''tf_key''
      else None)"

text \<open>Scenario A of the specification: the document on standard input and its decoding.\<close>

definition stdin_email :: string where
  \<open>stdin_email =
     ''{"action_approval":{"payload":{"to":"a@x.com","from":"b@x.com","subject":"Hi","text":"Hello"}}}''\<close>

definition payload_email :: dict where
  "payload_email =
     [(''to'', JString ''a@x.com''), (''from'', JString ''b@x.com''),
      (''subject'', JString ''Hi''), (''text'', JString ''Hello'')]"

definition doc_email :: json where
  "doc_email = JObject [(''action_approval'', JObject [(''payload'', JObject payload_email)])]"

definition body_id :: string where
  \<open>body_id = ''{"id":"em_123"}''\<close>

definition doc_id :: json where
  "doc_id = JObject [(''id'', JString ''em_123'')]"

text \<open>The standard output of scenario A as the specification prints it, without blanks.\<close>

definition stdout_claimed :: string where
  \<open>stdout_claimed =
     ''{"message":"resend email sent to a@x.com (id: em_123)","plugin":"external_resend_email"}''\<close>

text \<open>An automation request, and a document that is a JSON array.\<close>

definition stdin_automation :: string where
  \<open>stdin_automation =
     ''{"action_approval":{"payload":{"mode":"async","goal":"scrape","url":"http://e.com"}}}''\<close>

definition payload_automation :: dict where
  "payload_automation =
     [(''mode'', JString ''async''), (''goal'', JString ''scrape''),
      (''url'', JString ''http://e.com'')]"

definition doc_automation :: json where
  "doc_automation =
     JObject [(''action_approval'', JObject [(''payload'', JObject payload_automation)])]"

text \<open>Scenario B of the specification: an email request without a recipient.\<close>

definition stdin_no_recipient :: string where
  \<open>stdin_no_recipient = ''{"action_approval":{"payload":{"from":"b@x.com","text":"Hello"}}}''\<close>

definition payload_no_recipient :: dict where
  "payload_no_recipient = [(''from'', JString ''b@x.com''), (''text'', JString ''Hello'')]"

definition doc_no_recipient :: json where
  "doc_no_recipient =
     JObject [(''action_approval'', JObject [(''payload'', JObject payload_no_recipient)])]"

text \<open>
  Documents whose payload is present and no mapping: an empty list and an empty string,
  which Python takes for false, and a text, which it takes for true. The first run needs
  a sender from the environment.
\<close>

definition demo_env_sender :: env where
  "demo_env_sender name = (if name = ''RESEND_FROM'' then Some ''b@x.com'' else demo_env name)"

definition stdin_list_payload :: string where
  \<open>stdin_list_payload =
     ''{"action_approval":{"payload":[],"action_target":"a@x.com","action_summary":"Hello"}}''\<close>

definition approval_list_payload :: dict where
  "approval_list_payload =
     [(''payload'', JArray []), (''action_target'', JString ''a@x.com''),
      (''action_summary'', JString ''Hello'')]"

definition stdin_blank_payload :: string where
  \<open>stdin_blank_payload =
     ''{"action_approval":{"payload":"","action_target":"http://e.com","action_summary":"scrape"}}''\<close>

definition approval_blank_payload :: dict where
  "approval_blank_payload =
     [(''payload'', JString []), (''action_target'', JString ''http://e.com''),
      (''action_summary'', JString ''scrape'')]"

definition stdin_text_payload :: string where
  \<open>stdin_text_payload = ''{"action_approval":{"payload":"oops"}}''\<close>

definition approval_text_payload :: dict where
  "approval_text_payload = [(''payload'', JString ''oops'')]"

text \<open>An email request without subject and summary.\<close>

definition stdin_no_subject :: string where
  \<open>stdin_no_subject =
     ''{"action_approval":{"payload":{"to":"a@x.com","from":"b@x.com","text":"Hello"}}}''\<close>

definition payload_no_subject :: dict where
  "payload_no_subject =
     [(''to'', JString ''a@x.com''), (''from'', JString ''b@x.com''), (''text'', JString ''Hello'')]"

section \<open>Properties of the string functions\<close>

text \<open>The definitions that evaluate a concrete run.\<close>

lemmas str_defs = strip_def lstrip_def rstrip_def is_space_def lower_def lower_char_def
  char_of_eq_iff or_str_def rstrip_slash_def split_on_def split_ws_def

lemmas json_defs = dict_get_def dict_has_def as_dict_def as_str_def as_list_def map_lookup_def
  payload_of_def truthy_def py_str_def

lemmas demo_defs = table_loads_def demo_lib_def demo_env_def environ_get_def stdin_email_def
  doc_email_def body_id_def doc_id_def stdin_automation_def doc_automation_def stdout_claimed_def
  stdin_no_recipient_def payload_no_recipient_def doc_no_recipient_def payload_email_def
  payload_automation_def demo_env_sender_def stdin_list_payload_def approval_list_payload_def
  stdin_blank_payload_def approval_blank_payload_def stdin_text_payload_def
  approval_text_payload_def stdin_no_subject_def payload_no_subject_def

lemmas resend_defs = resend_main_def resend_request_def resend_dispatch_def resend_body_def resend_email_id_def
  str_or_empty_def normalize_recipients_def parse_message_def fail_def print_def io_init_def
  read_all_def dumps_str_def dumps_char_def

lemmas tinyfish_defs = tinyfish_main_def tinyfish_request_def tinyfish_dispatch_def tinyfish_fail_status_def
  build_request_def resolve_goal_def resolve_url_def is_async_action_def summarize_response_def
  parse_error_message_def parse_json_or_none_def map_string_def nested_map_string_def
  trim_def compact_def fail_def print_def io_init_def read_upto_def MAX_BODY_BYTES_def
  dumps_str_def dumps_char_def

lemma strip_Nil [simp]: "strip [] = []"
  by (simp add: strip_def lstrip_def rstrip_def)

lemma set_rstrip: "set (rstrip s) \<subseteq> set s"
  unfolding rstrip_def using set_dropWhileD by fastforce

lemma set_strip: "set (strip s) \<subseteq> set s"
  unfolding strip_def lstrip_def using set_rstrip set_dropWhileD by fastforce

lemma rstrip_Cons: "\<not> is_space c \<Longrightarrow> \<exists>r. rstrip (c # cs) = c # r"
  unfolding rstrip_def by (simp add: dropWhile_append) (metis rev_rev_ident)

lemma strip_Cons: "\<not> is_space c \<Longrightarrow> \<exists>r. strip (c # cs) = c # r"
  using rstrip_Cons [of c cs] by (auto simp: strip_def lstrip_def)

lemma of_char_lower_char:
  "(of_char (lower_char c) :: nat) =
     (if (65 \<le> (of_char c :: nat) \<and> (of_char c :: nat) \<le> 90) \<or>
         (192 \<le> (of_char c :: nat) \<and> (of_char c :: nat) \<le> 214) \<or>
         (216 \<le> (of_char c :: nat) \<and> (of_char c :: nat) \<le> 222)
      then of_char c + 32 else of_char c)"
  by (auto simp: lower_char_def Let_def)

lemma char_eq_nat: "(c = d) = ((of_char c :: nat) = of_char d)"
  by simp

lemma lower_char_s: "lower_char c = CHR ''s'' \<longleftrightarrow> c = CHR ''s'' \<or> c = CHR ''S''"
  unfolding char_eq_nat [of _ "CHR ''s''"] char_eq_nat [of _ "CHR ''S''"] of_char_lower_char
  by (auto split: if_splits)

lemma lower_no_s:
  assumes "CHR ''s'' \<notin> set s" "CHR ''S'' \<notin> set s"
  shows "lower (strip s) \<noteq> ''async''"
proof
  assume "lower (strip s) = ''async''"
  then have "CHR ''s'' \<in> set (lower (strip s))" by simp
  then obtain c where "c \<in> set (strip s)" "lower_char c = CHR ''s''"
    by (auto simp: lower_def)
  then show False using assms set_strip [of s] by (auto simp: lower_char_s)
qed

lemma lower_first:
  assumes "\<not> is_space c" "lower_char c \<noteq> CHR ''a''"
  shows "lower (strip (c # cs)) \<noteq> ''async''"
  using strip_Cons [OF assms(1), of cs] assms(2) by (auto simp: lower_def)

lemma digit_char_in: "k < 10 \<Longrightarrow> digit_char k \<in> set ''0123456789''"
  unfolding digit_char_def by (rule nth_mem) simp

lemma set_str_nat: "set (str_nat n) \<subseteq> set ''0123456789''"
proof (induction n rule: str_nat.induct)
  case (1 n)
  show ?case
  proof (cases "n < 10")
    case True
    then show ?thesis using digit_char_in [of n] by (subst str_nat.simps) simp
  next
    case False
    then show ?thesis using 1 digit_char_in [of "n mod 10"] by (subst str_nat.simps) simp
  qed
qed

lemma str_int_subset_aux:
  "set a \<subseteq> D \<Longrightarrow> set b \<subseteq> D \<Longrightarrow> set (if (i::int) < 0 then c # a else b) \<subseteq> insert c D"
  by auto

lemma set_str_int: "set (str_int i) \<subseteq> set ''-0123456789''"
proof -
  have eq: "set ''-0123456789'' = insert CHR ''-'' (set ''0123456789'')" by simp
  show ?thesis
    unfolding eq str_int_def
    by (rule str_int_subset_aux) (rule set_str_nat)+
qed

lemma not_in_subset: "set a \<subseteq> set b \<Longrightarrow> list_all (\<lambda>x. x \<noteq> c) b \<Longrightarrow> c \<notin> set a"
  by (auto simp: list_all_iff)

lemma set_float_text: "set (Rep_float_text t) \<subseteq> set float_chars"
  using Rep_float_text [of t] by (auto simp: float_text_ok_def list_all_iff)

lemma trim_not_async: "as_str v = None \<Longrightarrow> lower (trim v) \<noteq> ''async''"
proof (cases v)
  case JNull
  then show ?thesis by (simp add: trim_def lower_def)
next
  case (JBool b)
  have "\<not> is_space CHR ''T''" "lower_char CHR ''T'' \<noteq> CHR ''a''"
       "\<not> is_space CHR ''F''" "lower_char CHR ''F'' \<noteq> CHR ''a''"
    by (simp_all add: is_space_def lower_char_def char_of_eq_iff)
  then show ?thesis
    using JBool lower_first [of "CHR ''T''" "''rue''"] lower_first [of "CHR ''F''" "''alse''"]
    by (cases b) (simp_all add: trim_def py_str_def)
next
  case (JInt i)
  have "CHR ''s'' \<notin> set (str_int i)" "CHR ''S'' \<notin> set (str_int i)"
    by (rule not_in_subset [OF set_str_int], simp)+
  then show ?thesis using JInt lower_no_s [of "str_int i"]
    by (simp add: trim_def py_str_def)
next
  case (JFloat t)
  have "CHR ''s'' \<notin> set (Rep_float_text t)" "CHR ''S'' \<notin> set (Rep_float_text t)"
    by (rule not_in_subset [OF set_float_text], simp add: float_chars_def)+
  then show ?thesis using JFloat lower_no_s [of "Rep_float_text t"]
    by (simp add: trim_def py_str_def)
next
  case (JString s)
  assume "as_str v = None"
  then show ?thesis using JString by (simp add: as_str_def)
next
  case (JArray xs)
  have "\<not> is_space CHR ''[''" "lower_char CHR ''['' \<noteq> CHR ''a''"
    by (simp_all add: is_space_def lower_char_def)
  then show ?thesis using JArray lower_first [of "CHR ''[''"]
    by (simp add: trim_def py_str_def)
next
  case (JObject kvs)
  have "\<not> is_space CHR ''{''" "lower_char CHR ''{'' \<noteq> CHR ''a''"
    by (simp_all add: is_space_def lower_char_def)
  then show ?thesis using JObject lower_first [of "CHR ''{''"]
    by (simp add: trim_def py_str_def)
qed

lemma is_async_action_iff_aux:
  "is_async_action action_type payload \<longleftrightarrow>
     lower (strip action_type) = ''tinyfish_async'' \<or>
     dict_get payload ''async'' = JBool True \<or>
     (\<exists>m. dict_get payload ''mode'' = JString m \<and> lower (strip m) = ''async'')"
proof (cases "as_str (dict_get payload ''mode'')")
  case None
  then have "lower (trim (dict_get payload ''mode'')) \<noteq> ''async''"
    by (rule trim_not_async)
  moreover have "\<not> (\<exists>m. dict_get payload ''mode'' = JString m)"
    using None by (auto simp: as_str_def)
  ultimately show ?thesis
    by (auto simp: is_async_action_def trim_def py_str_def)
next
  case (Some m)
  then have "dict_get payload ''mode'' = JString m"
    by (auto simp: as_str_def split: json.splits)
  then show ?thesis
    by (auto simp: is_async_action_def trim_def py_str_def)
qed


section \<open>The asynchronous mode\<close>

text \<open>
  C4, as the code has it: the automation adapter's async determination is true if and only
  if the action type, with the surrounding whitespace removed, equals the sentinel
  \<^verbatim>\<open>tinyfish_async\<close> ignoring case, or the payload carries the boolean \<^verbatim>\<open>async\<close> with the
  value true, or the payload's \<^verbatim>\<open>mode\<close> is a string that, with the surrounding whitespace
  removed, equals \<^verbatim>\<open>async\<close> ignoring case. A \<^verbatim>\<open>mode\<close> that is no string never triggers.
\<close>

theorem is_async_action_iff:
  "is_async_action action_type payload \<longleftrightarrow>
     lower (strip action_type) = ''tinyfish_async'' \<or>
     dict_get payload ''async'' = JBool True \<or>
     (\<exists>m. dict_get payload ''mode'' = JString m \<and> lower (strip m) = ''async'')"
  by (rule is_async_action_iff_aux)

theorem is_async_action_iff_witness:
  "is_async_action ''email'' [(''mode'', JString ''Async'')] \<and>
   \<not> is_async_action ''email'' [(''mode'', JInt 1)]"
  using is_async_action_iff [of "''email''" "[(''mode'', JString ''Async'')]"]
        is_async_action_iff [of "''email''" "[(''mode'', JInt 1)]"]
  by (simp add: dict_get_def strip_def lstrip_def rstrip_def is_space_def lower_def
        lower_char_def char_of_eq_iff)

text \<open>
  C4 as the specification words it fails on whitespace: an action type or a mode with
  a blank around the word triggers the asynchronous mode, although it does not equal the
  word.
\<close>

theorem is_async_action_counterexample:
  "is_async_action '' tinyfish_async'' [] \<noteq> async_claimed '' tinyfish_async'' [] \<and>
   is_async_action ''email'' [(''mode'', JString ''async '')]
     \<noteq> async_claimed ''email'' [(''mode'', JString ''async '')]"
  by (simp add: is_async_action_def async_claimed_def trim_def py_str_def dict_get_def
        strip_def lstrip_def rstrip_def is_space_def lower_def lower_char_def char_of_eq_iff)

section \<open>The stages of a run\<close>

lemma exit_fail [simp]: "exit_code (fst (fail m s)) = 1"
  by (simp add: fail_def exit_code_def)

lemma requests_fail [simp]: "requests (snd (fail m s)) = requests s"
  by (simp add: fail_def)

lemma stdout_fail [simp]: "stdout (snd (fail m s)) = stdout s"
  by (simp add: fail_def)

lemma body_read_fail [simp]: "body_read (snd (fail m s)) = body_read s"
  by (simp add: fail_def)

lemma stderr_fail [simp]: "stderr (snd (fail m s)) = stderr s @ strip m @ [CHR 0x0A]"
  by (simp add: fail_def)

lemma io_init_simps [simp]:
  "requests io_init = []" "stdout io_init = []" "stderr io_init = []" "body_read io_init = []"
  by (simp_all add: io_init_def)

lemma exit_raise [simp]: "exit_code (Raise ex) = 1"
  by (simp add: exit_code_def)

lemma quiet_fail [simp]: "quiet_failure (fail m io_init)"
  by (simp add: quiet_failure_def)

lemma quiet_raise [simp]: "quiet_failure (Raise ex, io_init)"
  by (simp add: quiet_failure_def)

lemma resend_main_undecoded:
  "decoded_request lib raw = None \<Longrightarrow> quiet_failure (resend_main lib e raw)"
  unfolding decoded_request_def resend_main_def
  by (auto split: if_splits sum.splits option.splits)

lemma resend_main_decoded:
  "decoded_request lib raw = Some (approval, payload) \<Longrightarrow>
     resend_main lib e raw = resend_request lib e approval payload"
  unfolding decoded_request_def resend_main_def
  by (auto split: if_splits sum.splits option.splits)

lemma tinyfish_main_undecoded:
  "decoded_request lib raw = None \<Longrightarrow> quiet_failure (tinyfish_main lib e raw)"
  unfolding decoded_request_def tinyfish_main_def
  by (auto simp: trim_def py_str_def split: if_splits sum.splits option.splits)

lemma tinyfish_main_decoded:
  "decoded_request lib raw = Some (approval, payload) \<Longrightarrow>
     tinyfish_main lib e raw = tinyfish_request lib e approval payload"
  unfolding decoded_request_def tinyfish_main_def
  by (auto simp: trim_def py_str_def split: if_splits sum.splits option.splits)

lemma normalize_recipients_empty [simp]: "normalize_recipients (JString []) = []"
  by (simp add: normalize_recipients_def split_on_def)

lemma recipients_eq:
  "(if normalize_recipients (dict_get payload ''to'') = [] \<and>
       str_or_empty (map_lookup (JObject approval) [''action_target'', ''ActionTarget'']) \<noteq> []
    then normalize_recipients
           (JString (str_or_empty (map_lookup (JObject approval)
                                     [''action_target'', ''ActionTarget''])))
    else normalize_recipients (dict_get payload ''to''))
   = email_recipients approval payload"
  by (simp add: email_recipients_def)

lemma sender_eq:
  "or_str (str_or_empty (dict_get payload ''from'')) (str_or_empty (environ_get e ''RESEND_FROM''))
   = email_sender e payload"
  by (simp add: email_sender_def or_str_def)

lemma subject_eq:
  "or_str (or_str (str_or_empty (dict_get payload ''subject''))
                  (str_or_empty (map_lookup (JObject approval)
                                   [''action_summary'', ''ActionSummary''])))
          ''Message from agent-runtime''
   = email_subject approval payload"
  by (simp add: email_subject_def email_summary_def or_str_def)

lemma text_eq:
  "(if str_or_empty (dict_get payload ''text'') = [] \<and> str_or_empty (dict_get payload ''html'') = []
    then str_or_empty (map_lookup (JObject approval) [''action_summary'', ''ActionSummary''])
    else str_or_empty (dict_get payload ''text''))
   = email_text approval payload"
  by (simp add: email_text_def email_summary_def)

lemma content_eq:
  "(email_text approval payload = [] \<and> str_or_empty (dict_get payload ''html'') = [])
   = (\<not> email_has_content approval payload)"
  by (auto simp: email_text_def email_summary_def email_has_content_def)

lemma resend_request_eq:
  "resend_request lib e approval payload =
     (if email_recipients approval payload = []
      then fail ''resend_email requires payload.to or action target recipient email'' io_init
      else if email_sender e payload = []
      then fail ''resend_email requires payload.from or RESEND_FROM env var'' io_init
      else if \<not> email_has_content approval payload
      then fail ''resend_email requires payload.text or payload.html (or non-empty summary)''
             io_init
      else if credential_missing e ''RESEND_API_KEY''
      then fail ''resend plugin missing RESEND_API_KEY'' io_init
      else if \<not> float_ok lib (req_timeout (email_http_request e approval payload))
      then (Raise ValueError, io_init)
      else if \<not> request_ok lib (req_url (email_http_request e approval payload))
      then (Raise ValueError, io_init)
      else resend_dispatch lib (email_http_request e approval payload)
             (email_recipients approval payload) io_init)"
  unfolding resend_request_def Let_def recipients_eq sender_eq subject_eq text_eq content_eq
  by (simp add: email_http_request_def credential_missing_def)

lemma exit_return [simp]: "exit_code (Return n) = n"
  by (simp add: exit_code_def)

lemma tinyfish_request_eq:
  "tinyfish_request lib e approval payload =
     (case automation_body approval payload of
        Inl err \<Rightarrow> fail err io_init
      | Inr body \<Rightarrow>
          if credential_missing e ''TINYFISH_API_KEY''
          then fail ''tinyfish plugin is not configured: missing api key'' io_init
          else if \<not> request_ok lib (req_url (automation_http_request e approval payload body))
          then (Raise ValueError, io_init)
          else if \<not> float_ok lib (req_timeout (automation_http_request e approval payload body))
          then (Raise ValueError, io_init)
          else tinyfish_dispatch lib (automation_http_request e approval payload body)
                 (automation_async approval payload) io_init)"
  unfolding tinyfish_request_def Let_def
    automation_body_def [symmetric] automation_async_def [symmetric]
  by (simp add: automation_http_request_def credential_missing_def trim_def str_or_empty_def
        split: sum.splits)

text \<open>What a dispatch leaves behind.\<close>

lemma tinyfish_fail_status_io [simp]:
  "requests (snd (tinyfish_fail_status lib code txt s)) = requests s"
  "body_read (snd (tinyfish_fail_status lib code txt s)) = body_read s"
  "stdout (snd (tinyfish_fail_status lib code txt s)) = stdout s"
  "exit_code (fst (tinyfish_fail_status lib code txt s)) = 1"
  by (simp_all add: tinyfish_fail_status_def split: result.splits)

lemma resend_dispatch_requests [simp]:
  "requests (snd (resend_dispatch lib req tv io_init)) = [req]"
  by (simp add: resend_dispatch_def Let_def print_def split: urlopen_result.splits)

lemma tinyfish_dispatch_requests [simp]:
  "requests (snd (tinyfish_dispatch lib req am io_init)) = [req]"
  by (simp add: tinyfish_dispatch_def Let_def print_def split: urlopen_result.splits)

lemma resend_dispatch_body_read:
  "body_read (snd (resend_dispatch lib req tv io_init)) =
     (case urlopen lib req of Response st c \<Rightarrow> c | HTTPError st c \<Rightarrow> c | OtherError x \<Rightarrow> [])"
  by (simp add: resend_dispatch_def Let_def print_def read_all_def split: urlopen_result.splits)

lemma tinyfish_dispatch_body_read:
  "body_read (snd (tinyfish_dispatch lib req am io_init)) =
     (case urlopen lib req of Response st c \<Rightarrow> take MAX_BODY_BYTES c
      | HTTPError st c \<Rightarrow> take MAX_BODY_BYTES c | OtherError x \<Rightarrow> [])"
  by (simp add: tinyfish_dispatch_def Let_def print_def read_upto_def split: urlopen_result.splits)







text \<open>A run is a failure before the network, or the dispatch of the request it built.\<close>

lemma resend_request_cases:
  "quiet_failure (resend_request lib e approval payload) \<or>
   resend_request lib e approval payload =
     resend_dispatch lib (email_http_request e approval payload)
       (email_recipients approval payload) io_init"
  unfolding resend_request_eq by simp

lemma tinyfish_request_cases:
  "quiet_failure (tinyfish_request lib e approval payload) \<or>
   (\<exists>body. automation_body approval payload = Inr body \<and>
      tinyfish_request lib e approval payload =
        tinyfish_dispatch lib (automation_http_request e approval payload body)
          (automation_async approval payload) io_init)"
  unfolding tinyfish_request_eq by (simp split: sum.splits)

lemma quiet_requests: "quiet_failure run \<Longrightarrow> requests (snd run) = []"
  by (simp add: quiet_failure_def)

lemma resend_request_sent:
  assumes "requests (snd (resend_request lib e approval payload)) = [req]"
  shows "req = email_http_request e approval payload \<and>
         resend_request lib e approval payload
           = resend_dispatch lib req (email_recipients approval payload) io_init"
  using assms unfolding resend_request_eq by (simp split: if_splits)

lemma resend_main_sent:
  assumes "requests (snd (resend_main lib e raw)) = [req]"
  shows "\<exists>approval payload. decoded_request lib raw = Some (approval, payload) \<and>
           req = email_http_request e approval payload \<and>
           resend_main lib e raw
             = resend_dispatch lib req (email_recipients approval payload) io_init"
proof (cases "decoded_request lib raw")
  case None
  then show ?thesis using assms quiet_requests [OF resend_main_undecoded] by simp
next
  case (Some ap)
  obtain a p where ap: "ap = (a, p)" by (cases ap)
  show ?thesis
    using assms resend_request_sent [of lib e a p req] Some ap
    by (simp add: resend_main_decoded)
qed

lemma tinyfish_request_sent:
  assumes "requests (snd (tinyfish_request lib e approval payload)) = [req]"
  shows "\<exists>body. automation_body approval payload = Inr body \<and>
           req = automation_http_request e approval payload body \<and>
           tinyfish_request lib e approval payload
             = tinyfish_dispatch lib req (automation_async approval payload) io_init"
  using assms unfolding tinyfish_request_eq by (auto split: if_splits sum.splits)

lemma tinyfish_main_sent:
  assumes "requests (snd (tinyfish_main lib e raw)) = [req]"
  shows "\<exists>approval payload body. decoded_request lib raw = Some (approval, payload) \<and>
           automation_body approval payload = Inr body \<and>
           req = automation_http_request e approval payload body \<and>
           tinyfish_main lib e raw
             = tinyfish_dispatch lib req (automation_async approval payload) io_init"
proof (cases "decoded_request lib raw")
  case None
  then show ?thesis using assms quiet_requests [OF tinyfish_main_undecoded] by simp
next
  case (Some ap)
  obtain a p where ap: "ap = (a, p)" by (cases ap)
  show ?thesis
    using assms tinyfish_request_sent [of lib e a p req] Some ap
    by (simp add: tinyfish_main_decoded)
qed

text \<open>The two concrete requests reach the provider, whatever it replies.\<close>

lemma demo_email_decoded:
  "decoded_request (demo_lib [(stdin_email, doc_email)] reply) stdin_email
     = Some ([(''payload'', JObject payload_email)], payload_email)"
  by (simp add: decoded_request_def demo_lib_def table_loads_def doc_email_def
        json_defs stdin_email_def str_defs payload_email_def)

lemma demo_email_sent:
  "requests (snd (resend_main (demo_lib [(stdin_email, doc_email)] reply) demo_env stdin_email))
     = [email_http_request demo_env [(''payload'', JObject payload_email)] payload_email]"
proof -
  have ok: "email_recipients [(''payload'', JObject payload_email)] payload_email \<noteq> []"
    "email_sender demo_env payload_email \<noteq> []"
    "email_has_content [(''payload'', JObject payload_email)] payload_email"
    "\<not> credential_missing demo_env ''RESEND_API_KEY''"
    by (simp_all add: email_recipients_def email_sender_def email_has_content_def
          credential_missing_def payload_email_def json_defs normalize_recipients_def
          str_or_empty_def split_on_def str_defs demo_env_def environ_get_def)
  have cfg: "float_ok (demo_lib [(stdin_email, doc_email)] reply)
               (req_timeout (email_http_request demo_env [(''payload'', JObject payload_email)]
                               payload_email))"
    "request_ok (demo_lib [(stdin_email, doc_email)] reply)
               (req_url (email_http_request demo_env [(''payload'', JObject payload_email)]
                           payload_email))"
    by (simp_all add: email_http_request_def demo_lib_def demo_env_def environ_get_def
          str_or_empty_def str_defs)
  show ?thesis
    unfolding resend_main_decoded [OF demo_email_decoded] resend_request_eq
    using ok cfg by simp
qed

lemma demo_automation_decoded:
  "decoded_request (demo_lib [(stdin_automation, doc_automation)] reply) stdin_automation
     = Some ([(''payload'', JObject payload_automation)], payload_automation)"
  by (simp add: decoded_request_def demo_lib_def table_loads_def doc_automation_def
        json_defs stdin_automation_def str_defs payload_automation_def)

lemma demo_automation_body:
  "automation_body [(''payload'', JObject payload_automation)] payload_automation
     = Inr [(''goal'', JString ''scrape''), (''url'', JString ''http://e.com'')]"
  by (simp add: automation_body_def build_request_def resolve_goal_def resolve_url_def
        map_string_def trim_def payload_automation_def json_defs Let_def str_defs)

lemma demo_automation_sent:
  "requests (snd (tinyfish_main (demo_lib [(stdin_automation, doc_automation)] reply) demo_env
                    stdin_automation))
     = [automation_http_request demo_env [(''payload'', JObject payload_automation)]
          payload_automation [(''goal'', JString ''scrape''), (''url'', JString ''http://e.com'')]]"
proof -
  have ok: "\<not> credential_missing demo_env ''TINYFISH_API_KEY''"
    by (simp add: credential_missing_def str_or_empty_def str_defs demo_env_def environ_get_def
          py_str_def)
  have cfg: "float_ok (demo_lib [(stdin_automation, doc_automation)] reply)
               (req_timeout (automation_http_request demo_env
                  [(''payload'', JObject payload_automation)] payload_automation body))"
    "request_ok (demo_lib [(stdin_automation, doc_automation)] reply)
               (req_url (automation_http_request demo_env
                  [(''payload'', JObject payload_automation)] payload_automation body))" for body
    by (simp_all add: automation_http_request_def demo_lib_def demo_env_def environ_get_def
          trim_def str_defs)
  show ?thesis
    unfolding tinyfish_main_decoded [OF demo_automation_decoded] tinyfish_request_eq
      demo_automation_body
    using ok cfg by simp
qed

lemma map_of_dict_set: "map_of (dict_set d k v) k' = (if k' = k then Some v else map_of d k')"
  by (induction d) auto

lemma let_any: "(\<And>x. Q (f x)) \<Longrightarrow> Q (Let a f)"
  by (simp add: Let_def)

lemma let_inv: "P a \<Longrightarrow> (\<And>x. P x \<Longrightarrow> Q (f x)) \<Longrightarrow> Q (Let a f)"
  by (simp add: Let_def)

lemmas let_subject =
  let_inv [where P = "\<lambda>d. map_of d ''subject'' = Some (JString subject)"
             and Q = "\<lambda>d. map_of d ''subject'' = Some (JString subject)"] for subject

lemma resend_body_subject:
  "map_of (resend_body payload from_value to_values subject text html) ''subject''
     = Some (JString subject)"
  unfolding resend_body_def
  apply (rule let_any)
  apply (rule let_any)
  apply (rule let_subject, simp)
  apply (rule let_subject, simp add: map_of_dict_set)
  apply (rule let_subject, simp add: map_of_dict_set)
  apply (rule let_subject, simp add: map_of_dict_set)
  apply (rule let_subject, simp add: map_of_dict_set)
  apply (rule let_any)
  apply (rule let_subject, simp add: map_of_dict_set Let_def split: json.splits)
  apply (rule let_any)
  apply (rule let_subject, simp add: map_of_dict_set split: option.splits)
  apply (rule let_any)
  apply (rule let_subject, simp add: map_of_dict_set split: option.splits)
  apply assumption
  done


lemma resend_main_requests:
  "requests (snd (resend_main lib e raw)) = [] \<or>
   (\<exists>approval payload. decoded_request lib raw = Some (approval, payload) \<and>
      requests (snd (resend_main lib e raw)) = [email_http_request e approval payload])"
proof (cases "decoded_request lib raw")
  case None
  then show ?thesis using quiet_requests [OF resend_main_undecoded] by simp
next
  case (Some ap)
  obtain a p where ap: "ap = (a, p)" by (cases ap)
  show ?thesis
    using Some ap by (simp add: resend_main_decoded resend_request_eq)
qed

lemma tinyfish_main_requests:
  "requests (snd (tinyfish_main lib e raw)) = [] \<and> body_read (snd (tinyfish_main lib e raw)) = [] \<or>
   (\<exists>req am. requests (snd (tinyfish_main lib e raw)) = [req] \<and>
      tinyfish_main lib e raw = tinyfish_dispatch lib req am io_init)"
proof (cases "decoded_request lib raw")
  case None
  then show ?thesis using tinyfish_main_undecoded [of lib raw e] by (simp add: quiet_failure_def)
next
  case (Some ap)
  obtain a p where ap: "ap = (a, p)" by (cases ap)
  show ?thesis
    using Some ap by (auto simp: tinyfish_main_decoded tinyfish_request_eq split: sum.splits)
qed

lemma strip_hd: "strip s \<noteq> [] \<Longrightarrow> \<not> is_space (hd (strip s))"
  unfolding strip_def lstrip_def using hd_dropWhile by blast

lemma rstrip_last: "rstrip s \<noteq> [] \<Longrightarrow> \<not> is_space (last (rstrip s))"
  unfolding rstrip_def by (metis hd_dropWhile last_rev rev_is_Nil_conv)

lemma last_dropWhile: "dropWhile P xs \<noteq> [] \<Longrightarrow> last (dropWhile P xs) = last xs"
  by (induction xs) auto

lemma strip_last: "strip s \<noteq> [] \<Longrightarrow> \<not> is_space (last (strip s))"
  unfolding strip_def lstrip_def
  by (metis last_dropWhile rstrip_last dropWhile.simps(1))

lemma strip_id: "s \<noteq> [] \<Longrightarrow> \<not> is_space (hd s) \<Longrightarrow> \<not> is_space (last s) \<Longrightarrow> strip s = s"
proof -
  assume a: "s \<noteq> []" "\<not> is_space (hd s)" "\<not> is_space (last s)"
  then have "dropWhile is_space (rev s) = rev s"
    by (cases "rev s") (auto simp: last_rev hd_rev)
  then have "rstrip s = s" by (simp add: rstrip_def)
  moreover have "dropWhile is_space s = s" using a by (cases s) auto
  ultimately show ?thesis by (simp add: strip_def lstrip_def)
qed

lemma strip_idem [simp]: "strip (strip s) = strip s"
  by (cases "strip s = []") (auto simp: strip_id strip_hd strip_last)

lemma compact_strip [simp]: "compact (strip s) = compact s"
  by (simp add: compact_def)





lemma split_ws_acc_spaces:
  "list_all is_space t \<Longrightarrow> split_ws_acc cur t = (if cur = [] then [] else [cur])"
  by (induction t arbitrary: cur) auto

lemma split_ws_acc_append_spaces:
  "list_all is_space t \<Longrightarrow> split_ws_acc cur (s @ t) = split_ws_acc cur s"
  by (induction s arbitrary: cur) (auto simp: split_ws_acc_spaces)

lemma split_ws_acc_dropWhile:
  "split_ws_acc [] (dropWhile is_space s) = split_ws_acc [] s"
  by (induction s) auto

lemma rstrip_decompose: "rstrip s @ rev (takeWhile is_space (rev s)) = s"
  unfolding rstrip_def by (metis rev_append rev_rev_ident takeWhile_dropWhile_id)

lemma split_ws_rstrip: "split_ws_acc cur (rstrip s) = split_ws_acc cur s"
proof -
  have "list_all is_space (rev (takeWhile is_space (rev s)))"
    by (simp add: list_all_iff) (meson set_takeWhileD)
  then show ?thesis
    using split_ws_acc_append_spaces [of "rev (takeWhile is_space (rev s))" cur "rstrip s"]
    by (simp add: rstrip_decompose)
qed

lemma split_ws_strip [simp]: "split_ws (strip s) = split_ws s"
  by (simp add: split_ws_def strip_def lstrip_def split_ws_acc_dropWhile split_ws_rstrip)


lemma trim_is_strip: "\<exists>x. trim v = strip x"
  by (cases "v = JNull") (auto simp: trim_def intro: exI [of _ "[]"])

lemma goal_source_is_strip: "\<exists>x. goal_source summary payload = strip x"
  unfolding goal_source_def using trim_is_strip by auto

lemma strip_append_label:
  assumes "strip a \<noteq> []" "strip b \<noteq> []"
  shows "strip (strip a @ m @ strip b) = strip a @ m @ strip b"
proof (rule strip_id)
  show "strip a @ m @ strip b \<noteq> []" using assms by simp
  show "\<not> is_space (hd (strip a @ m @ strip b))"
    using assms(1) strip_hd [of a] by simp
  show "\<not> is_space (last (strip a @ m @ strip b))"
    using assms(2) strip_last [of b] by simp
qed

lemma resolve_goal_eq:
  "resolve_goal summary action_target payload =
     (if goal_source summary payload \<noteq> [] \<and> strip action_target \<noteq> [] \<and>
         \<not> contains (lower (goal_source summary payload)) (lower (strip action_target))
      then goal_source summary payload @ [CHR 0x0A] @ ''Target URL: '' @ strip action_target
      else goal_source summary payload)"
proof -
  obtain x where x: "goal_source summary payload = strip x"
    using goal_source_is_strip by blast
  have g: "(let goal = trim (dict_get payload ''goal'');
                goal = (if goal = [] then trim (dict_get payload ''task'') else goal)
            in if goal = [] then trim (JString summary) else goal) = goal_source summary payload"
    by (simp add: goal_source_def Let_def trim_def [of "JString summary"] py_str_def)
  have app: "strip (strip x @ [CHR 0x0A] @ ''Target URL: '' @ strip action_target)
               = strip x @ [CHR 0x0A] @ ''Target URL: '' @ strip action_target"
    if "strip x \<noteq> []" "strip action_target \<noteq> []"
    using strip_append_label [OF that, of "[CHR 0x0A] @ ''Target URL: ''"] by simp
  show ?thesis
    using g app unfolding resolve_goal_def Let_def x
    by (auto simp: trim_def py_str_def)
qed


lemma dict_get_set_other: "k' \<noteq> k \<Longrightarrow> dict_get (dict_set d k v) k' = dict_get d k'"
  by (simp add: dict_get_def map_of_dict_set)

lemma dict_get_set_same: "dict_get (dict_set d k v) k = v"
  by (simp add: dict_get_def map_of_dict_set)

lemma dict_get_Nil: "dict_get [] k = JNull"
  by (simp add: dict_get_def)

lemma dict_get_Cons: "dict_get ((k, v) # d) k' = (if k' = k then v else dict_get d k')"
  by (simp add: dict_get_def)

section \<open>The outcome of a run\<close>

text \<open>
  C1 says that every run ends with one JSON line on standard output and exit code 0, or
  with one diagnostic line on standard error and exit code 1. The code misses cases: a
  document on standard input that is valid JSON and no object (here \<^verbatim>\<open>[]\<close>) makes
  \<^verbatim>\<open>request.get\<close> raise \<^verbatim>\<open>AttributeError\<close> in both adapters, and an HTTP error whose body is
  valid JSON and no object does the same in \<^verbatim>\<open>parse_error_message\<close> of the automation
  adapter. No handler catches the exception, nothing has been written by \<^verbatim>\<open>fail\<close> or
  \<^verbatim>\<open>print\<close>, and the interpreter prints a traceback instead of the diagnostic line.
\<close>

theorem main_uncaught_exception:
  "resend_main (demo_lib [(''[]'', JArray [])] (OtherError ''unused'')) demo_env ''[]''
     = (Raise AttributeError, io_init) \<and>
   tinyfish_main (demo_lib [(''[]'', JArray [])] (OtherError ''unused'')) demo_env ''[]''
     = (Raise AttributeError, io_init) \<and>
   fst (tinyfish_main (demo_lib [(stdin_automation, doc_automation), (''[]'', JArray [])]
                         (HTTPError 502 ''[]'')) demo_env stdin_automation)
     = Raise AttributeError"
  by (simp add: resend_defs tinyfish_defs str_defs json_defs demo_defs Let_def)

section \<open>Scenario A: an email is sent\<close>

text \<open>
  C5, as the code has it: on the document of scenario A, with the API key configured, the
  default base URL and timeout, and the provider answering 201 with the body
  \<^verbatim>\<open>{"id":"em_123"}\<close>, the run returns 0, writes nothing to standard error, and standard
  output is the one line that \<^verbatim>\<open>json.dumps\<close> prints with its default separators: a blank
  after each colon and each comma.
\<close>

theorem resend_scenario_a:
  assumes "json_loads lib stdin_email = Inr doc_email"
    and "str_or_empty (environ_get e ''RESEND_API_KEY'') \<noteq> []"
    and "e ''RESEND_API_BASE'' = None" and "e ''RESEND_TIMEOUT_SEC'' = None"
    and "float_ok lib ''30''" and "request_ok lib ''https://api.resend.com/emails''"
    and "\<And>req. urlopen lib req = Response 201 content"
    and "decode_utf8 lib content = body_id"
    and "json_loads lib body_id = Inr doc_id"
  shows \<open>fst (resend_main lib e stdin_email) = Return 0 \<and>
         stdout (snd (resend_main lib e stdin_email))
           = ''{"message": "resend email sent to a@x.com (id: em_123)", "plugin": "external_resend_email"}''
             @ [CHR 0x0A] \<and>
         stderr (snd (resend_main lib e stdin_email)) = []\<close>
proof -
  have raw: "strip stdin_email \<noteq> []"
    by (simp add: stdin_email_def str_defs)
  have key: "str_or_empty (environ_get e ''RESEND_API_KEY'') = [] \<longleftrightarrow> False"
    using assms(2) by simp
  have env: "environ_get e ''RESEND_API_BASE'' = JNull" "environ_get e ''RESEND_TIMEOUT_SEC'' = JNull"
    using assms(3,4) by (simp_all add: environ_get_def)
  show ?thesis
    unfolding resend_main_def
    apply (simp only: raw if_False assms(1) sum.case)
    unfolding resend_request_def
    apply (simp add: doc_email_def payload_email_def json_defs Let_def key env assms(5-7)
        assms(8) [unfolded body_id_def] assms(9) [unfolded body_id_def doc_id_def]
        resend_dispatch_def
        resend_body_def resend_email_id_def normalize_recipients_def fail_def print_def io_init_def
        read_all_def dumps_str_def dumps_char_def str_defs
        str_or_empty_def [of "JString _"] str_or_empty_def [of JNull])
    done
qed


theorem resend_scenario_a_witness:
  "fst (resend_main (demo_lib [(stdin_email, doc_email), (body_id, doc_id)] (Response 201 body_id))
          demo_env stdin_email) = Return 0"
  by (rule resend_scenario_a [where content = body_id, THEN conjunct1])
     (simp_all add: demo_lib_def table_loads_def demo_env_def environ_get_def str_or_empty_def
        py_str_def str_defs stdin_email_def body_id_def)

text \<open>
  The line of C5 in the specification has no blank after the colons and the comma; the
  line that the adapter prints has them.
\<close>

theorem resend_scenario_a_counterexample:
  \<open>stdout (snd (resend_main (demo_lib [(stdin_email, doc_email), (body_id, doc_id)]
                              (Response 201 body_id)) demo_env stdin_email))
     = ''{"message": "resend email sent to a@x.com (id: em_123)", "plugin": "external_resend_email"}''
       @ [CHR 0x0A] \<and>
   stdout (snd (resend_main (demo_lib [(stdin_email, doc_email), (body_id, doc_id)]
                              (Response 201 body_id)) demo_env stdin_email))
     \<noteq> stdout_claimed @ [CHR 0x0A] \<and>
   stdout (snd (resend_main (demo_lib [(stdin_email, doc_email), (body_id, doc_id)]
                              (Response 201 body_id)) demo_env stdin_email))
     \<noteq> stdout_claimed\<close>
  by (simp add: resend_defs str_defs json_defs demo_defs Let_def)


section \<open>Errors before the network\<close>




section \<open>The status of the response\<close>



section \<open>A payload that is no mapping\<close>




section \<open>The subject of an email\<close>

text \<open>
  C10: every request that the email adapter hands to \<^verbatim>\<open>urlopen\<close> has a \<^verbatim>\<open>subject\<close> in its
  body, a string that is not empty; and when \<^verbatim>\<open>payload.subject\<close> and the approval's
  \<^verbatim>\<open>action_summary\<close> both coerce to the empty string, it is the fallback
  \<^verbatim>\<open>Message from agent-runtime\<close>.
\<close>

theorem email_subject_present:
  assumes "req \<in> set (requests (snd (resend_main lib e raw)))"
  shows "\<exists>subject. map_of (req_data req) ''subject'' = Some (JString subject) \<and> subject \<noteq> [] \<and>
           (\<forall>approval payload.
              decoded_request lib raw = Some (approval, payload) \<and>
              str_or_empty (dict_get payload ''subject'') = [] \<and>
              str_or_empty (map_lookup (JObject approval) [''action_summary'', ''ActionSummary''])
                = [] \<longrightarrow>
              subject = ''Message from agent-runtime'')"
proof -
  from assms resend_main_requests [of lib e raw]
  obtain a p where d: "decoded_request lib raw = Some (a, p)"
    and r: "req = email_http_request e a p"
    by auto
  have body: "map_of (req_data req) ''subject'' = Some (JString (email_subject a p))"
    unfolding r by (simp add: email_http_request_def resend_body_subject)
  have ne: "email_subject a p \<noteq> []"
    by (simp add: email_subject_def)
  have fb: "email_subject a p = ''Message from agent-runtime''"
    if "str_or_empty (dict_get p ''subject'') = []"
       "str_or_empty (map_lookup (JObject a) [''action_summary'', ''ActionSummary'']) = []"
    using that by (simp add: email_subject_def email_summary_def)
  show ?thesis
    using body ne fb d by auto
qed

theorem email_subject_present_witness:
  "requests (snd (resend_main (demo_lib [(stdin_no_subject,
                JObject [(''action_approval'', JObject [(''payload'', JObject payload_no_subject)])])]
              (Response 200 [])) demo_env stdin_no_subject))
     = [email_http_request demo_env [(''payload'', JObject payload_no_subject)] payload_no_subject] \<and>
   map_of (req_data (email_http_request demo_env [(''payload'', JObject payload_no_subject)]
                       payload_no_subject)) ''subject''
     = Some (JString ''Message from agent-runtime'')"
proof -
  let ?lib = "demo_lib [(stdin_no_subject,
                JObject [(''action_approval'', JObject [(''payload'', JObject payload_no_subject)])])]
              (Response 200 [])"
  let ?a = "[(''payload'', JObject payload_no_subject)]"
  let ?req = "email_http_request demo_env ?a payload_no_subject"
  have d: "decoded_request ?lib stdin_no_subject = Some (?a, payload_no_subject)"
    by (simp add: decoded_request_def demo_lib_def table_loads_def json_defs
          stdin_no_subject_def str_defs payload_no_subject_def)
  have ok: "email_recipients ?a payload_no_subject \<noteq> []"
    "email_sender demo_env payload_no_subject \<noteq> []"
    "email_has_content ?a payload_no_subject"
    "\<not> credential_missing demo_env ''RESEND_API_KEY''"
    "float_ok ?lib (req_timeout ?req)" "request_ok ?lib (req_url ?req)"
    by (simp_all add: email_recipients_def email_sender_def email_has_content_def
          credential_missing_def payload_no_subject_def json_defs normalize_recipients_def
          str_or_empty_def split_on_def str_defs demo_env_def environ_get_def
          email_http_request_def demo_lib_def)
  have sent: "requests (snd (resend_main ?lib demo_env stdin_no_subject)) = [?req]"
    unfolding resend_main_decoded [OF d] resend_request_eq using ok by simp
  have e: "str_or_empty (dict_get payload_no_subject ''subject'') = []"
    "str_or_empty (map_lookup (JObject ?a) [''action_summary'', ''ActionSummary'']) = []"
    by (simp_all add: payload_no_subject_def json_defs str_or_empty_def)
  have "?req \<in> set (requests (snd (resend_main ?lib demo_env stdin_no_subject)))"
    unfolding sent by simp
  from email_subject_present [OF this] d e sent show ?thesis
    by auto
qed

section \<open>The size of the response body\<close>

text \<open>
  C3, as the code has it: \<open>MAX_BODY_BYTES\<close> is 131072, and the automation adapter reads at
  most that many bytes of the provider's response body: the first 131072 bytes, or the
  whole body when it is shorter, on the success path and on the HTTP-error path alike.
  The email adapter has no such bound: on both paths it reads the whole body.
\<close>

theorem body_read_bound:
  "MAX_BODY_BYTES = 131072 \<and>
   length (body_read (snd (tinyfish_main lib e raw))) \<le> MAX_BODY_BYTES \<and>
   (requests (snd (tinyfish_main lib e raw)) = [req] \<and>
    (urlopen lib req = Response st content \<or> urlopen lib req = HTTPError st content) \<longrightarrow>
      body_read (snd (tinyfish_main lib e raw)) = take MAX_BODY_BYTES content) \<and>
   (requests (snd (resend_main lib e raw)) = [req] \<and>
    (urlopen lib req = Response st content \<or> urlopen lib req = HTTPError st content) \<longrightarrow>
      body_read (snd (resend_main lib e raw)) = content)"
proof (intro conjI impI)
  show "MAX_BODY_BYTES = 131072" by (simp add: MAX_BODY_BYTES_def)
next
  show "length (body_read (snd (tinyfish_main lib e raw))) \<le> MAX_BODY_BYTES"
    using tinyfish_main_requests [of lib e raw]
    by (auto simp: tinyfish_dispatch_body_read split: urlopen_result.splits)
next
  assume h: "requests (snd (tinyfish_main lib e raw)) = [req] \<and>
    (urlopen lib req = Response st content \<or> urlopen lib req = HTTPError st content)"
  then obtain am where "tinyfish_main lib e raw = tinyfish_dispatch lib req am io_init"
    using tinyfish_main_sent [of lib e raw req] by auto
  then show "body_read (snd (tinyfish_main lib e raw)) = take MAX_BODY_BYTES content"
    using h by (auto simp: tinyfish_dispatch_body_read)
next
  assume h: "requests (snd (resend_main lib e raw)) = [req] \<and>
    (urlopen lib req = Response st content \<or> urlopen lib req = HTTPError st content)"
  then obtain tv where "resend_main lib e raw = resend_dispatch lib req tv io_init"
    using resend_main_sent [of lib e raw req] by auto
  then show "body_read (snd (resend_main lib e raw)) = content"
    using h by (auto simp: resend_dispatch_body_read)
qed

theorem body_read_bound_witness:
  "body_read (snd (tinyfish_main (demo_lib [(stdin_automation, doc_automation)]
                                    (HTTPError 500 ''busy'')) demo_env stdin_automation))
     = take MAX_BODY_BYTES ''busy'' \<and>
   body_read (snd (resend_main (demo_lib [(stdin_email, doc_email)] (HTTPError 500 ''busy''))
                     demo_env stdin_email)) = ''busy''"
  using body_read_bound
          [of "demo_lib [(stdin_automation, doc_automation)] (HTTPError 500 ''busy'')" demo_env
              stdin_automation
              "automation_http_request demo_env [(''payload'', JObject payload_automation)]
                 payload_automation
                 [(''goal'', JString ''scrape''), (''url'', JString ''http://e.com'')]"
              500 "''busy''"]
        body_read_bound
          [of "demo_lib [(stdin_email, doc_email)] (HTTPError 500 ''busy'')" demo_env stdin_email
              "email_http_request demo_env [(''payload'', JObject payload_email)] payload_email"
              500 "''busy''"]
        demo_automation_sent [of "HTTPError 500 ''busy''"]
        demo_email_sent [of "HTTPError 500 ''busy''"]
  by (simp add: demo_lib_def)

text \<open>
  C3 as the specification words it fails for the email adapter: it reads a response body
  of 131073 bytes to its end.
\<close>

theorem body_read_bound_counterexample:
  "length (body_read (snd (resend_main (demo_lib [(stdin_email, doc_email)]
                                          (Response 200 (replicate 131073 CHR ''x'')))
                             demo_env stdin_email))) = 131073 \<and>
   (131073::nat) > MAX_BODY_BYTES"
proof -
  obtain tv where run:
    "resend_main (demo_lib [(stdin_email, doc_email)] (Response 200 (replicate 131073 CHR ''x'')))
       demo_env stdin_email
     = resend_dispatch (demo_lib [(stdin_email, doc_email)]
                          (Response 200 (replicate 131073 CHR ''x'')))
         (email_http_request demo_env [(''payload'', JObject payload_email)] payload_email)
         tv io_init"
    using resend_main_sent [OF demo_email_sent] by blast
  show ?thesis
    unfolding run resend_dispatch_body_read
    by (simp add: demo_lib_def MAX_BODY_BYTES_def)
qed

section \<open>The reduction of a response\<close>





section \<open>The goal of an automation request\<close>

text \<open>
  C7, as the code has it. \<^verbatim>\<open>resolve_goal\<close> takes the first source that is not empty among
  \<^verbatim>\<open>payload.goal\<close>, \<^verbatim>\<open>payload.task\<close> and the summary of the approval, each coerced to a
  trimmed string; when the trimmed action target is not empty and does not occur in that
  goal, both compared in lower case, the line \<^verbatim>\<open>Target URL:\<close> with the target is appended.
  There is no further source: when all three are empty the goal is empty, and
  \<^verbatim>\<open>build_request\<close> fails with its missing-goal error unless \<^verbatim>\<open>payload.request\<close> is a mapping
  with a goal of its own. Such a goal comes first: the request body keeps it as it is, and
  \<^verbatim>\<open>resolve_goal\<close> is not asked.
\<close>

theorem goal_resolution:
  "resolve_goal summary action_target payload =
     (if goal_source summary payload \<noteq> [] \<and> strip action_target \<noteq> [] \<and>
         \<not> contains (lower (goal_source summary payload)) (lower (strip action_target))
      then goal_source summary payload @ [CHR 0x0A] @ ''Target URL: '' @ strip action_target
      else goal_source summary payload) \<and>
   (build_request summary action_target payload = Inr body \<longrightarrow>
      dict_get body ''goal'' =
        (if map_string (dict_get payload ''request'') ''goal'' \<noteq> []
         then map_lookup (dict_get payload ''request'') [''goal'']
         else JString (resolve_goal summary action_target payload))) \<and>
   (map_string (dict_get payload ''request'') ''goal'' = [] \<and> goal_source summary payload = [] \<longrightarrow>
      build_request summary action_target payload
        = Inl ''tinyfish action requires payload.goal, payload.task, or summary'')"
proof (intro conjI impI)
  show "resolve_goal summary action_target payload =
     (if goal_source summary payload \<noteq> [] \<and> strip action_target \<noteq> [] \<and>
         \<not> contains (lower (goal_source summary payload)) (lower (strip action_target))
      then goal_source summary payload @ [CHR 0x0A] @ ''Target URL: '' @ strip action_target
      else goal_source summary payload)"
    by (rule resolve_goal_eq)
next
  assume b: "build_request summary action_target payload = Inr body"
  show "dict_get body ''goal'' =
        (if map_string (dict_get payload ''request'') ''goal'' \<noteq> []
         then map_lookup (dict_get payload ''request'') [''goal'']
         else JString (resolve_goal summary action_target payload))"
  proof (cases "as_dict (dict_get payload ''request'')")
    case None
    with b show ?thesis
      by (auto simp: build_request_def Let_def map_string_def as_dict_def trim_def
            dict_get_Nil dict_get_Cons split: if_splits)
  next
    case (Some r)
    then have r: "dict_get payload ''request'' = JObject r"
      by (auto simp: as_dict_def split: json.splits)
    have l: "map_lookup (JObject r) [''goal''] = dict_get r ''goal''"
      by (simp add: map_lookup_def as_dict_def dict_get_def dict_has_def split: option.splits)
    from b show ?thesis
      unfolding r l
      by (auto simp: build_request_def Let_def r map_string_def as_dict_def
            dict_get_set_other dict_get_set_same split: if_splits)
  qed
next
  assume h: "map_string (dict_get payload ''request'') ''goal'' = [] \<and>
             goal_source summary payload = []"
  then have "resolve_goal summary action_target payload = []"
    by (simp add: resolve_goal_eq)
  moreover have "map_string (JObject (case as_dict (dict_get payload ''request'') of
                                        None \<Rightarrow> [] | Some r \<Rightarrow> r)) ''goal'' = []"
    using h by (auto simp: map_string_def as_dict_def dict_get_def trim_def
                  split: json.splits option.splits)
  ultimately show "build_request summary action_target payload
        = Inl ''tinyfish action requires payload.goal, payload.task, or summary''"
    by (simp add: build_request_def Let_def)
qed

theorem goal_resolution_witness:
  "resolve_goal ''check the stock'' '' http://e.com '' [] =
     ''check the stock'' @ [CHR 0x0A] @ ''Target URL: http://e.com'' \<and>
   build_request [] ''http://e.com'' [] =
     Inl ''tinyfish action requires payload.goal, payload.task, or summary'' \<and>
   dict_get [(''goal'', JString ''scrape''), (''url'', JString ''http://e.com'')] ''goal''
     = JString (resolve_goal [] [] payload_automation)"
proof -
  have s: "goal_source ''check the stock'' [] = ''check the stock''"
    "strip '' http://e.com '' = ''http://e.com''"
    "\<not> contains (lower ''check the stock'') (lower ''http://e.com'')"
    "goal_source [] [] = []" "map_string (dict_get [] ''request'') ''goal'' = []"
    "map_string (dict_get payload_automation ''request'') ''goal'' = []"
    by (simp_all add: goal_source_def trim_def map_string_def json_defs str_defs
          payload_automation_def)
  have b: "build_request [] [] payload_automation
             = Inr [(''goal'', JString ''scrape''), (''url'', JString ''http://e.com'')]"
    by (simp add: build_request_def resolve_goal_def resolve_url_def map_string_def trim_def
          payload_automation_def json_defs Let_def str_defs)
  show ?thesis
    using goal_resolution [of "''check the stock''" "'' http://e.com ''" "[]" body]
          goal_resolution [of "[]" "''http://e.com''" "[]" body]
          goal_resolution [of "[]" "[]" payload_automation
                              "[(''goal'', JString ''scrape''), (''url'', JString ''http://e.com'')]"]
          s b
    by simp
qed

text \<open>
  C7 as the specification words it fails in three ways: a goal in \<^verbatim>\<open>payload.request\<close> wins
  over \<^verbatim>\<open>payload.goal\<close>, and nothing is appended to it; a target that occurs in the goal
  in another case is not appended, although it is no substring of the goal; and when the
  three sources are empty no hint takes their place.
\<close>

theorem goal_resolution_counterexample:
  "build_request [] ''http://e.com''
     [(''goal'', JString ''scrape prices''),
      (''request'', JObject [(''goal'', JString ''book a flight'')])]
     = Inr [(''goal'', JString ''book a flight''), (''url'', JString ''http://e.com'')] \<and>
   resolve_goal [] ''HTTP://E.COM'' [(''goal'', JString ''open http://e.com'')]
     = ''open http://e.com'' \<and>
   \<not> contains ''open http://e.com'' ''HTTP://E.COM'' \<and>
   resolve_goal [] [] [] = [] \<and>
   build_request [] ''http://e.com'' []
     = Inl ''tinyfish action requires payload.goal, payload.task, or summary''"
  by (simp add: build_request_def resolve_goal_def resolve_url_def map_string_def trim_def
        json_defs Let_def str_defs)

end
